theory Spec2Isabelle
  imports Complex_Main
begin

section \<open>Python values, exceptions and built-ins\<close>

text \<open>
  The exporter handles three kinds of loosely typed data: the document that
  \<^verbatim>\<open>yaml.safe_load\<close> returns, the body that \<^verbatim>\<open>r.json()\<close> returns, and the floats it
  publishes. A Python float is a finite number, an infinity or NaN; finite values are kept as
  rationals (every double is one), so that \<^verbatim>\<open>42.5\<close> is \<open>Finite (85 / 2)\<close>.
  Dictionaries are association lists read with \<open>map_of\<close>; their keys are strings, which
  is all a JSON object can have and all the exporter ever looks up.
\<close>

datatype pyfloat = Finite rat | PosInf | NegInf | NaN

datatype pyval =
    PNone
  | PBool bool
  | PInt int
  | PFloat pyfloat
  | PStr string
  | PList "pyval list"
  | PDict "(string \<times> pyval) list"

text \<open>
  What \<^verbatim>\<open>session.get\<close> raises is never \<^verbatim>\<open>requests.HTTPError\<close> (only
  \<^verbatim>\<open>raise_for_status\<close> raises that one), so transport failures are a type of their own.
\<close>

datatype transport_failure = ConnectionError | Timeout | RetryError | TooManyRedirects

datatype exn =
    HTTPError int
  | RequestException transport_failure
  | JSONDecodeError
  | TypeError
  | ValueError
  | KeyError
  | IndexError
  | AttributeError
  | OverflowError
  | OSError
  | YAMLError

text \<open>
  Two built-ins are parameters of the model: \<^verbatim>\<open>str(x)\<close>, which formats a gauge id inside
  the request and every label value of a metric, and \<^verbatim>\<open>float(s)\<close> on a string, which
  returns \<open>None\<close> where Python raises \<^verbatim>\<open>ValueError\<close>.
\<close>

record builtins =
  str_of :: "pyval \<Rightarrow> string"
  float_of_str :: "string \<Rightarrow> pyfloat option"

subsection \<open>Comparison and truth value\<close>

text \<open>\<^verbatim>\<open>x != y\<close> on floats: NaN differs from everything, itself included.\<close>

definition float_ne :: "pyfloat \<Rightarrow> pyfloat \<Rightarrow> bool" where
  "float_ne x y = (x = NaN \<or> y = NaN \<or> x \<noteq> y)"

fun truthy :: "pyval \<Rightarrow> bool" where
  "truthy PNone = False"
| "truthy (PBool b) = b"
| "truthy (PInt n) = (n \<noteq> 0)"
| "truthy (PFloat x) = (x \<noteq> Finite 0)"
| "truthy (PStr s) = (s \<noteq> [])"
| "truthy (PList xs) = (xs \<noteq> [])"
| "truthy (PDict kvs) = (kvs \<noteq> [])"

subsection \<open>\<^verbatim>\<open>int(s)\<close> on a string\<close>

text \<open>
  Surrounding whitespace is dropped, one sign is allowed, then decimal digits, with single
  underscores between digits; \<open>None\<close> stands for \<^verbatim>\<open>ValueError\<close>. Header values are Latin-1
  text, one \<open>char\<close> per character. The limit that recent interpreters put on the number
  of digits is left out.
\<close>

definition is_space :: "char \<Rightarrow> bool" where
  "is_space c = (let n = (of_char c :: nat) in
     (9 \<le> n \<and> n \<le> 13) \<or> (28 \<le> n \<and> n \<le> 32) \<or> n = 133 \<or> n = 160)"

definition is_digit :: "char \<Rightarrow> bool" where
  "is_digit c = (let n = (of_char c :: nat) in 48 \<le> n \<and> n \<le> 57)"

definition digit_val :: "char \<Rightarrow> nat" where
  "digit_val c = of_char c - 48"

definition strip :: "string \<Rightarrow> string" where
  "strip s = rev (dropWhile is_space (rev (dropWhile is_space s)))"

fun parse_digits :: "nat \<Rightarrow> string \<Rightarrow> nat option" where
  "parse_digits acc [] = Some acc"
| "parse_digits acc (c # cs) =
     (if is_digit c then parse_digits (acc * 10 + digit_val c) cs
      else if c = CHR ''_'' then
        (case cs of
           [] \<Rightarrow> None
         | d # _ \<Rightarrow> if is_digit d then parse_digits acc cs else None)
      else None)"

definition parse_unsigned :: "string \<Rightarrow> nat option" where
  "parse_unsigned s =
     (case s of
        [] \<Rightarrow> None
      | c # _ \<Rightarrow> if is_digit c then parse_digits 0 s else None)"

definition py_int :: "string \<Rightarrow> int option" where
  "py_int s =
     (case strip s of
        [] \<Rightarrow> None
      | c # cs \<Rightarrow>
          if c = CHR ''-'' then map_option (\<lambda>n. - int n) (parse_unsigned cs)
          else if c = CHR ''+'' then map_option int (parse_unsigned cs)
          else map_option int (parse_unsigned (c # cs)))"

subsection \<open>\<^verbatim>\<open>float(x)\<close>\<close>

text \<open>
  An integer is rounded to the nearest double, ties to even, and an integer that rounds
  beyond the largest double raises \<^verbatim>\<open>OverflowError\<close>.
\<close>

fun bit_length :: "nat \<Rightarrow> nat" where
  "bit_length n = (if n = 0 then 0 else Suc (bit_length (n div 2)))"

declare bit_length.simps [simp del]

definition float_of_int :: "int \<Rightarrow> exn + pyfloat" where
  "float_of_int n =
     (let a = nat \<bar>n\<bar>; e = bit_length a in
      if e \<le> 53 then Inr (Finite (of_int n))
      else
        let sh = e - 53;
            q = a div 2 ^ sh;
            r = a mod 2 ^ sh;
            half = 2 ^ (sh - 1);
            m = (if half < r \<or> (r = half \<and> odd q) then q + 1 else q);
            mag = m * 2 ^ sh
        in if 2 ^ 1024 \<le> mag then Inl OverflowError
           else Inr (Finite (of_int (if n < 0 then - int mag else int mag))))"

fun py_float :: "builtins \<Rightarrow> pyval \<Rightarrow> exn + pyfloat" where
  "py_float L (PFloat x) = Inr x"
| "py_float L (PInt n) = float_of_int n"
| "py_float L (PBool b) = Inr (Finite (if b then 1 else 0))"
| "py_float L (PStr s) =
     (case float_of_str L s of None \<Rightarrow> Inl ValueError | Some x \<Rightarrow> Inr x)"
| "py_float L PNone = Inl TypeError"
| "py_float L (PList xs) = Inl TypeError"
| "py_float L (PDict kvs) = Inl TypeError"

subsection \<open>Subscripts and \<^verbatim>\<open>.get\<close>\<close>

text \<open>
  \<open>item0 x\<close> is \<^verbatim>\<open>x[0]\<close>, \<open>item_str x k\<close> is \<^verbatim>\<open>x["k"]\<close> and \<open>get_method x k d\<close> is
  \<^verbatim>\<open>x.get("k", d)\<close>; only a dictionary has the method.
\<close>

fun item0 :: "pyval \<Rightarrow> exn + pyval" where
  "item0 (PList []) = Inl IndexError"
| "item0 (PList (x # xs)) = Inr x"
| "item0 (PStr []) = Inl IndexError"
| "item0 (PStr (c # cs)) = Inr (PStr [c])"
| "item0 (PDict kvs) = Inl KeyError"
| "item0 PNone = Inl TypeError"
| "item0 (PBool b) = Inl TypeError"
| "item0 (PInt n) = Inl TypeError"
| "item0 (PFloat x) = Inl TypeError"

fun item_str :: "pyval \<Rightarrow> string \<Rightarrow> exn + pyval" where
  "item_str (PDict kvs) k = (case map_of kvs k of None \<Rightarrow> Inl KeyError | Some v \<Rightarrow> Inr v)"
| "item_str PNone k = Inl TypeError"
| "item_str (PBool b) k = Inl TypeError"
| "item_str (PInt n) k = Inl TypeError"
| "item_str (PFloat x) k = Inl TypeError"
| "item_str (PStr s) k = Inl TypeError"
| "item_str (PList xs) k = Inl TypeError"

definition dict_get :: "(string \<times> pyval) list \<Rightarrow> string \<Rightarrow> pyval \<Rightarrow> pyval" where
  "dict_get kvs k d = (case map_of kvs k of None \<Rightarrow> d | Some v \<Rightarrow> v)"

fun get_method :: "pyval \<Rightarrow> string \<Rightarrow> pyval \<Rightarrow> exn + pyval" where
  "get_method (PDict kvs) k d = Inr (dict_get kvs k d)"
| "get_method PNone k d = Inl AttributeError"
| "get_method (PBool b) k d = Inl AttributeError"
| "get_method (PInt n) k d = Inl AttributeError"
| "get_method (PFloat x) k d = Inl AttributeError"
| "get_method (PStr s) k d = Inl AttributeError"
| "get_method (PList xs) k d = Inl AttributeError"

section \<open>The response body (\<^verbatim>\<open>fetch_usgs_gauge\<close>, lines 128 to 135)\<close>

text \<open>
  \<open>read_value L body\<close> is the tail of the \<^verbatim>\<open>try\<close> block: \<^verbatim>\<open>r.json()\<close> (\<open>None\<close> when the
  body is not JSON), the feature list, \<^verbatim>\<open>features[0]["properties"].get("value")\<close> and the
  coercion to a float. \<open>Inl e\<close> is the exception the block raises, \<open>Inr x\<close> the value
  it returns.
\<close>

definition read_value :: "builtins \<Rightarrow> pyval option \<Rightarrow> exn + pyfloat" where
  "read_value L body =
     (case body of
        None \<Rightarrow> Inl JSONDecodeError
      | Some data \<Rightarrow>
          (case get_method data ''features'' (PList []) of
             Inl e \<Rightarrow> Inl e
           | Inr features \<Rightarrow>
               if truthy features then
                 (case item0 features of
                    Inl e \<Rightarrow> Inl e
                  | Inr feature \<Rightarrow>
                      (case item_str feature ''properties'' of
                         Inl e \<Rightarrow> Inl e
                       | Inr props \<Rightarrow>
                           (case get_method props ''value'' PNone of
                              Inl e \<Rightarrow> Inl e
                            | Inr raw_val \<Rightarrow>
                                (case raw_val of
                                   PDict inner \<Rightarrow>
                                     py_float L (dict_get inner ''value'' (PFloat NaN))
                                 | _ \<Rightarrow> py_float L raw_val))))
               else Inr NaN))"

section \<open>Configuration, metrics registry and upstream\<close>

text \<open>
  The module-level configuration that comes from the environment. A key that is unset is
  \<open>None\<close>.
\<close>

record config =
  MAX_WORKERS :: int
  API_KEY_PRIMARY :: "string option"
  API_KEY_BACKUP :: "string option"

definition API_URL :: string where
  "API_URL = ''https://api.waterdata.usgs.gov/ogcapi/v0/collections/latest-continuous/items''"

text \<open>
  What the handlers print. The formatted text is not modelled, only which line is printed,
  for which gauge and key, and with which exception.
\<close>

datatype log_line =
    ErrorLoadingGauges exn
  | WarnHTTPError pyval string exn
  | WarnFetching pyval string exn
  | WarnProcessing pyval exn

text \<open>
  The process-wide state: the Prometheus metrics of the module, each labelled gauge a
  dictionary from its label values to the value last set, and the lines printed so far.
  It outlives a scrape; \<^verbatim>\<open>metrics\<close> and \<^verbatim>\<open>fetch_usgs_gauge\<close> update it in place.
\<close>

record state =
  USGS_STREAMFLOW :: "string \<times> string \<times> string \<rightharpoonup> pyfloat"
  SCRAPE_SUCCESS :: nat
  SCRAPE_FAILURE :: nat
  GAUGES_TOTAL :: nat
  SCRAPE_DURATION :: rat
  USGS_API_RATELIMIT_REMAINING :: "string \<rightharpoonup> pyfloat"
  USGS_API_RATELIMIT_LIMIT :: "string \<rightharpoonup> pyfloat"
  USGS_API_REQUESTS_PER_HOUR :: "string \<rightharpoonup> pyfloat"
  stdout :: "log_line list"

text \<open>
  A request as \<^verbatim>\<open>session.get\<close> sends it and what comes back: a transport failure (after the
  adapter's own retries) or a response. \<open>headers r name\<close> is \<^verbatim>\<open>r.headers.get(name)\<close> and
  \<open>json_body r\<close> is \<^verbatim>\<open>r.json()\<close>, \<open>None\<close> when the body does not decode.
\<close>

record request =
  url :: string
  req_headers :: "(string \<times> string) list"
  req_params :: "(string \<times> string) list"
  timeout :: nat

record response =
  status_code :: int
  headers :: "string \<rightharpoonup> string"
  json_body :: "pyval option"

datatype get_result = Failed transport_failure | Responded response

section \<open>Labelled gauges\<close>

text \<open>
  \<^verbatim>\<open>G.labels(k).set(arg)\<close>: \<^verbatim>\<open>labels\<close> runs first and creates the child at 0 when the
  label is new, then the argument is evaluated, then \<^verbatim>\<open>set\<close> stores \<^verbatim>\<open>float(arg)\<close>.
\<close>

definition labels_child :: "('k \<rightharpoonup> pyfloat) \<Rightarrow> 'k \<Rightarrow> ('k \<rightharpoonup> pyfloat)" where
  "labels_child m k = (case m k of None \<Rightarrow> m(k \<mapsto> Finite 0) | Some x \<Rightarrow> m)"

definition labelled_set ::
  "('k \<rightharpoonup> pyfloat) \<Rightarrow> 'k \<Rightarrow> exn + int \<Rightarrow> ('k \<rightharpoonup> pyfloat) \<times> (exn + unit)" where
  "labelled_set m k arg =
     (let m1 = labels_child m k in
      case arg of
        Inl e \<Rightarrow> (m1, Inl e)
      | Inr n \<Rightarrow>
          (case float_of_int n of
             Inl e \<Rightarrow> (m1, Inl e)
           | Inr x \<Rightarrow> (m1(k \<mapsto> x), Inr ())))"

text \<open>\<^verbatim>\<open>int(h)\<close> on what \<^verbatim>\<open>r.headers.get\<close> returned.\<close>

definition int_of_header :: "string option \<Rightarrow> exn + int" where
  "int_of_header h =
     (case h of
        None \<Rightarrow> Inl TypeError
      | Some v \<Rightarrow> (case py_int v of None \<Rightarrow> Inl ValueError | Some n \<Rightarrow> Inr n))"

text \<open>
  Lines 110 to 115, and 117 to 122 for the other header: nothing happens when the header
  is absent; otherwise the gauge is set inside a \<^verbatim>\<open>try\<close> whose handler passes on
  \<^verbatim>\<open>ValueError\<close> alone.
\<close>

definition set_header_gauge ::
  "(string \<rightharpoonup> pyfloat) \<Rightarrow> string \<Rightarrow> string option \<Rightarrow> (string \<rightharpoonup> pyfloat) \<times> (exn + unit)" where
  "set_header_gauge m key_label h =
     (case h of
        None \<Rightarrow> (m, Inr ())
      | Some v \<Rightarrow>
          (case labelled_set m key_label (int_of_header (Some v)) of
             (m1, Inl e) \<Rightarrow> if e = ValueError then (m1, Inr ()) else (m1, Inl e)
           | (m1, Inr u) \<Rightarrow> (m1, Inr u)))"

section \<open>\<^verbatim>\<open>fetch_usgs_gauge\<close>\<close>

text \<open>
  Lines 109 to 126, run on a response that passed \<^verbatim>\<open>raise_for_status\<close>: the two header
  gauges, then \<^verbatim>\<open>used = int(limit) - int(remaining)\<close>, computed whether or not the headers
  are there, then the third gauge. It returns the state it leaves behind, gauges set
  before an exception included, and the exception if one is raised.
\<close>

definition rate_limit_metrics :: "response \<Rightarrow> string \<Rightarrow> state \<Rightarrow> state \<times> (exn + unit)" where
  "rate_limit_metrics r key_label s =
     (let remaining = headers r ''X-RateLimit-Remaining'' in
      case set_header_gauge (USGS_API_RATELIMIT_REMAINING s) key_label remaining of
        (m1, Inl e) \<Rightarrow> (s\<lparr>USGS_API_RATELIMIT_REMAINING := m1\<rparr>, Inl e)
      | (m1, Inr u1) \<Rightarrow>
          let s1 = s\<lparr>USGS_API_RATELIMIT_REMAINING := m1\<rparr>;
              limit = headers r ''X-RateLimit-Limit''
          in
          (case set_header_gauge (USGS_API_RATELIMIT_LIMIT s1) key_label limit of
             (m2, Inl e) \<Rightarrow> (s1\<lparr>USGS_API_RATELIMIT_LIMIT := m2\<rparr>, Inl e)
           | (m2, Inr u2) \<Rightarrow>
               let s2 = s1\<lparr>USGS_API_RATELIMIT_LIMIT := m2\<rparr> in
               (case int_of_header limit of
                  Inl e \<Rightarrow> (s2, Inl e)
                | Inr l \<Rightarrow>
                    (case int_of_header remaining of
                       Inl e \<Rightarrow> (s2, Inl e)
                     | Inr m \<Rightarrow>
                         (case labelled_set (USGS_API_REQUESTS_PER_HOUR s2) key_label
                                 (Inr (l - m)) of
                            (m3, res) \<Rightarrow> (s2\<lparr>USGS_API_REQUESTS_PER_HOUR := m3\<rparr>, res))))))"

text \<open>
  \<open>try_block\<close> is the body of the \<^verbatim>\<open>try\<close> of one loop iteration (lines 104 to 135), run
  with the key of that iteration: the request, \<^verbatim>\<open>raise_for_status\<close> (which raises for a
  status from 400 to 599), the rate-limit gauges and the body. It returns the state it
  leaves behind and either the exception it raises or the value it returns.
\<close>

definition try_block ::
  "builtins \<Rightarrow> (request \<Rightarrow> get_result) \<Rightarrow> (string \<times> string) list \<Rightarrow> string \<Rightarrow>
   string option \<Rightarrow> state \<Rightarrow> state \<times> (exn + pyfloat)" where
  "try_block L get params key_label api_key s =
     (let hdrs = (case api_key of
                    None \<Rightarrow> []
                  | Some k \<Rightarrow> if k = [] then [] else [(''X-Api-Key'', k)])
      in
      case get \<lparr>url = API_URL, req_headers = hdrs, req_params = params, timeout = 10\<rparr> of
        Failed e \<Rightarrow> (s, Inl (RequestException e))
      | Responded r \<Rightarrow>
          if 400 \<le> status_code r \<and> status_code r < 600
          then (s, Inl (HTTPError (status_code r)))
          else
            (case rate_limit_metrics r key_label s of
               (s1, Inl e) \<Rightarrow> (s1, Inl e)
             | (s1, Inr u) \<Rightarrow> (s1, read_value L (json_body r))))"

text \<open>
  The two handlers of the \<^verbatim>\<open>try\<close> (lines 136 to 142), as the lines they print:
  \<^verbatim>\<open>HTTPError\<close> with status 429 prints nothing, any other \<^verbatim>\<open>HTTPError\<close> and any other
  exception print one warning. Either way the loop goes on to the next key.
\<close>

definition handlers :: "pyval \<Rightarrow> string \<Rightarrow> exn \<Rightarrow> log_line list" where
  "handlers gauge_id key_label e =
     (case e of
        HTTPError code \<Rightarrow> if code = 429 then [] else [WarnHTTPError gauge_id key_label e]
      | _ \<Rightarrow> [WarnFetching gauge_id key_label e])"

text \<open>
  The loop over the two keys: a value returned by the \<^verbatim>\<open>try\<close> block is returned at once,
  an exception is handled and the next key is tried. After the last key the function
  returns NaN (line 143). \<open>session_get k\<close> answers the \<open>k\<close>-th call of \<^verbatim>\<open>session.get\<close>.
  The result is a sum so that the theorems can say that no exception leaves the function.
\<close>

fun fetch_loop ::
  "builtins \<Rightarrow> (nat \<Rightarrow> request \<Rightarrow> get_result) \<Rightarrow> pyval \<Rightarrow> (string \<times> string) list \<Rightarrow> nat \<Rightarrow>
   (string \<times> string option) list \<Rightarrow> state \<Rightarrow> state \<times> (exn + pyfloat)" where
  "fetch_loop L session_get gauge_id params k [] s = (s, Inr NaN)"
| "fetch_loop L session_get gauge_id params k ((key_label, api_key) # keys) s =
     (case try_block L (session_get k) params key_label api_key s of
        (s1, Inr v) \<Rightarrow> (s1, Inr v)
      | (s1, Inl e) \<Rightarrow>
          fetch_loop L session_get gauge_id params (Suc k) keys
            (s1\<lparr>stdout := stdout s1 @ handlers gauge_id key_label e\<rparr>))"

text \<open>The query parameters of lines 95 to 100.\<close>

definition request_params :: "builtins \<Rightarrow> pyval \<Rightarrow> (string \<times> string) list" where
  "request_params L gauge_id =
     [(''monitoring_location_id'', ''USGS-'' @ str_of L gauge_id),
      (''parameter_code'', ''00060''),
      (''statistic_id'', ''00011''),
      (''properties'', ''value,time'')]"

definition fetch_usgs_gauge ::
  "builtins \<Rightarrow> config \<Rightarrow> (nat \<Rightarrow> request \<Rightarrow> get_result) \<Rightarrow> pyval \<Rightarrow> state \<Rightarrow>
   state \<times> (exn + pyfloat)" where
  "fetch_usgs_gauge L cfg session_get gauge_id s =
     fetch_loop L session_get gauge_id (request_params L gauge_id) 0
       [(''primary'', API_KEY_PRIMARY cfg), (''backup'', API_KEY_BACKUP cfg)] s"

section \<open>\<^verbatim>\<open>load_gauges\<close>\<close>

text \<open>
  The loop of lines 84 to 86 raises \<^verbatim>\<open>ValueError\<close> at the first entry that is not a
  dictionary or has no key \<^verbatim>\<open>id\<close>.
\<close>

fun check_entries :: "pyval list \<Rightarrow> exn + unit" where
  "check_entries [] = Inr ()"
| "check_entries (g # gs) =
     (case g of
        PDict kvs \<Rightarrow> if map_of kvs ''id'' = None then Inl ValueError else check_entries gs
      | _ \<Rightarrow> Inl ValueError)"

text \<open>
  \<open>file\<close> is what opening and parsing \<^verbatim>\<open>GAUGES_FILE\<close> gives: the exception raised by
  \<^verbatim>\<open>open\<close> or \<^verbatim>\<open>yaml.safe_load\<close>, or the parsed document.
\<close>

definition load_gauges_try :: "exn + pyval \<Rightarrow> exn + pyval list" where
  "load_gauges_try file =
     (case file of
        Inl e \<Rightarrow> Inl e
      | Inr gauges \<Rightarrow>
          (case gauges of
             PList gs \<Rightarrow> (case check_entries gs of Inl e \<Rightarrow> Inl e | Inr u \<Rightarrow> Inr gs)
           | _ \<Rightarrow> Inl ValueError))"

definition load_gauges :: "exn + pyval \<Rightarrow> state \<Rightarrow> pyval list \<times> state" where
  "load_gauges file s =
     (case load_gauges_try file of
        Inl e \<Rightarrow> ([], s\<lparr>stdout := stdout s @ [ErrorLoadingGauges e]\<rparr>)
      | Inr gs \<Rightarrow> (gs, s))"

section \<open>\<^verbatim>\<open>metrics\<close>\<close>

text \<open>
  The constructor of \<^verbatim>\<open>concurrent.futures.ThreadPoolExecutor\<close> raises \<^verbatim>\<open>ValueError\<close> for
  \<^verbatim>\<open>max_workers <= 0\<close>; otherwise the pool has that many workers.
\<close>

definition ThreadPoolExecutor :: "int \<Rightarrow> exn + nat" where
  "ThreadPoolExecutor max_workers =
     (if max_workers \<le> 0 then Inl ValueError else Inr (nat max_workers))"

text \<open>
  The dictionary comprehension of line 157: one future per descriptor, in list order,
  each remembering the \<^verbatim>\<open>g["id"]\<close> it was submitted with and its descriptor.
\<close>

fun submit_all :: "pyval list \<Rightarrow> exn + (pyval \<times> pyval) list" where
  "submit_all [] = Inr []"
| "submit_all (g # gs) =
     (case item_str g ''id'' of
        Inl e \<Rightarrow> Inl e
      | Inr gauge_id \<Rightarrow>
          (case submit_all gs of
             Inl e \<Rightarrow> Inl e
           | Inr futures \<Rightarrow> Inr ((gauge_id, g) # futures)))"

text \<open>
  One future from submission to the end of its iteration of the \<^verbatim>\<open>as_completed\<close> loop:
  the worker runs \<^verbatim>\<open>fetch_usgs_gauge\<close>, then the main thread reads the labels, counts the
  result (lines 164 to 173) and sets the gauge's sample (lines 175 to 179).
\<close>

definition process_future ::
  "builtins \<Rightarrow> config \<Rightarrow> (nat \<Rightarrow> request \<Rightarrow> get_result) \<Rightarrow> pyval \<times> pyval \<Rightarrow>
   state \<times> nat \<times> nat \<Rightarrow> state \<times> (exn + nat \<times> nat)" where
  "process_future L cfg session_get future acc =
     (case (future, acc) of ((submitted_id, g), (s, successes, failures)) \<Rightarrow>
      (case fetch_usgs_gauge L cfg session_get submitted_id s of (s1, result) \<Rightarrow>
       (case get_method g ''id'' PNone of
          Inl e \<Rightarrow> (s1, Inl e)
        | Inr gauge_id \<Rightarrow>
       (case get_method g ''name'' gauge_id of
          Inl e \<Rightarrow> (s1, Inl e)
        | Inr name_or_id \<Rightarrow>
       (case get_method g ''friendly_name'' name_or_id of
          Inl e \<Rightarrow> (s1, Inl e)
        | Inr friendly \<Rightarrow>
       (case get_method g ''name'' gauge_id of
          Inl e \<Rightarrow> (s1, Inl e)
        | Inr location_name \<Rightarrow>
            (case (case result of
                     Inr v \<Rightarrow>
                       if float_ne v NaN then (s1, successes + 1, failures, v)
                       else (s1, successes, failures + 1, v)
                   | Inl e \<Rightarrow>
                       (s1\<lparr>stdout := stdout s1 @ [WarnProcessing gauge_id e]\<rparr>,
                        successes, failures + 1, NaN))
             of (s2, successes1, failures1, val) \<Rightarrow>
               (s2\<lparr>USGS_STREAMFLOW := (USGS_STREAMFLOW s2)
                      ((str_of L gauge_id, str_of L friendly, str_of L location_name) \<mapsto> val)\<rparr>,
                Inr (successes1, failures1)))))))))"

text \<open>
  The \<^verbatim>\<open>as_completed\<close> loop. \<open>order\<close> lists the futures by index in the order in which they
  complete; \<open>upstream i\<close> answers the requests of future \<open>i\<close>. Each worker's writes to the
  registry are applied when its future completes. An index that names no future is
  skipped.
\<close>

fun as_completed_loop ::
  "builtins \<Rightarrow> config \<Rightarrow> (nat \<Rightarrow> nat \<Rightarrow> request \<Rightarrow> get_result) \<Rightarrow> (pyval \<times> pyval) list \<Rightarrow>
   nat list \<Rightarrow> state \<times> nat \<times> nat \<Rightarrow> state \<times> (exn + nat \<times> nat)" where
  "as_completed_loop L cfg upstream futures [] acc = (fst acc, Inr (snd acc))"
| "as_completed_loop L cfg upstream futures (i # order) acc =
     (if i < length futures then
        (case process_future L cfg (upstream i) (futures ! i) acc of
           (s1, Inl e) \<Rightarrow> (s1, Inl e)
         | (s1, Inr counts) \<Rightarrow> as_completed_loop L cfg upstream futures order (s1, counts))
      else as_completed_loop L cfg upstream futures order acc)"

text \<open>
  Which completion orders a pool allows: every future completes once, and since a pool
  of \<open>pool\<close> workers starts the futures in submission order, each one as a worker becomes
  free, the future that completes in position \<open>k\<close> has an index below \<open>pool + k\<close>. A
  pool of one worker completes the futures in list order.
\<close>

definition completion_order :: "nat \<Rightarrow> nat \<Rightarrow> nat list \<Rightarrow> bool" where
  "completion_order pool n order =
     (distinct order \<and> set order = {..<n} \<and> list_all (\<lambda>k. order ! k < pool + k) [0..<n])"

text \<open>
  The handler of \<^verbatim>\<open>/metrics\<close>. \<open>t_start\<close> and \<open>t_end\<close> are the two readings of the clock.
  The second component is \<open>Inr ()\<close> when the handler returns its response, the rendering
  of the registry in the state returned, and \<open>Inl e\<close> when it raises \<open>e\<close>; the state is
  the one the process is left in either way.
\<close>

definition metrics ::
  "builtins \<Rightarrow> config \<Rightarrow> exn + pyval \<Rightarrow> (nat \<Rightarrow> nat \<Rightarrow> request \<Rightarrow> get_result) \<Rightarrow> nat list \<Rightarrow>
   rat \<Rightarrow> rat \<Rightarrow> state \<Rightarrow> state \<times> (exn + unit)" where
  "metrics L cfg file upstream order t_start t_end s =
     (case load_gauges file s of (gauges, s1) \<Rightarrow>
      let s2 = s1\<lparr>GAUGES_TOTAL := length gauges\<rparr>;
          s3 = s2\<lparr>USGS_STREAMFLOW := Map.empty\<rparr>
      in
      (case ThreadPoolExecutor (min (MAX_WORKERS cfg) (int (length gauges))) of
         Inl e \<Rightarrow> (s3, Inl e)
       | Inr pool \<Rightarrow>
           (case submit_all gauges of
              Inl e \<Rightarrow> (s3, Inl e)
            | Inr futures \<Rightarrow>
                (case as_completed_loop L cfg upstream futures order (s3, 0, 0) of
                   (s4, Inl e) \<Rightarrow> (s4, Inl e)
                 | (s4, Inr (successes, failures)) \<Rightarrow>
                     (s4\<lparr>SCRAPE_SUCCESS := successes,
                         SCRAPE_FAILURE := failures,
                         SCRAPE_DURATION := t_end - t_start\<rparr>,
                      Inr ())))))"

section \<open>Sample inputs\<close>

text \<open>
  Concrete values at which the theorems below are evaluated. \<open>plain_str\<close> is \<^verbatim>\<open>str\<close> on
  strings, the only values the samples format, and the samples coerce no string to a float.
\<close>

fun plain_str :: "pyval \<Rightarrow> string" where
  "plain_str (PStr s) = s"
| "plain_str v = []"

definition plain_builtins :: builtins where
  "plain_builtins = \<lparr>str_of = plain_str, float_of_str = (\<lambda>s. None)\<rparr>"

definition fresh_registry :: state where
  "fresh_registry =
     \<lparr>USGS_STREAMFLOW = Map.empty, SCRAPE_SUCCESS = 0, SCRAPE_FAILURE = 0, GAUGES_TOTAL = 0,
      SCRAPE_DURATION = 0, USGS_API_RATELIMIT_REMAINING = Map.empty,
      USGS_API_RATELIMIT_LIMIT = Map.empty, USGS_API_REQUESTS_PER_HOUR = Map.empty,
      stdout = []\<rparr>"

definition two_keys :: "int \<Rightarrow> config" where
  "two_keys workers =
     \<lparr>MAX_WORKERS = workers, API_KEY_PRIMARY = Some ''key-one'', API_KEY_BACKUP = Some ''key-two''\<rparr>"

text \<open>The body \<^verbatim>\<open>{"features": [{"properties": {"value": v}}]}\<close>.\<close>

definition feature_body :: "pyval \<Rightarrow> pyval" where
  "feature_body v = PDict [(''features'', PList [PDict [(''properties'', PDict [(''value'', v)])]])]"

text \<open>A response with the given status, rate-limit headers (when given) and body.\<close>

definition reply :: "int \<Rightarrow> (string \<times> string) option \<Rightarrow> pyval \<Rightarrow> get_result" where
  "reply status rate body =
     Responded \<lparr>status_code = status,
       headers = (case rate of
                    None \<Rightarrow> Map.empty
                  | Some (remaining, limit) \<Rightarrow>
                      [''X-RateLimit-Remaining'' \<mapsto> remaining, ''X-RateLimit-Limit'' \<mapsto> limit]),
       json_body = Some body\<rparr>"

definition gauge_entry :: "string \<Rightarrow> string \<Rightarrow> pyval" where
  "gauge_entry gauge_id name = PDict [(''id'', PStr gauge_id), (''name'', PStr name)]"

text \<open>Two descriptors with the same id and different names.\<close>

definition same_id_two_names :: "pyval list" where
  "same_id_two_names =
     [gauge_entry ''09380000'' ''Lees Ferry'', gauge_entry ''09380000'' ''Colorado River'']"

text \<open>An upstream that answers every request with the reading 42.5 and 450 of 500 requests left.\<close>

definition steady_upstream :: "nat \<Rightarrow> request \<Rightarrow> get_result" where
  "steady_upstream k req = reply 200 (Some (''450'', ''500'')) (feature_body (PFloat (Finite (85 / 2))))"

text \<open>Two gauges with different ids.\<close>

definition two_gauges :: "pyval list" where
  "two_gauges = [gauge_entry ''09380000'' ''Lees Ferry'', gauge_entry ''09379500'' ''Bluff'']"

text \<open>
  A deterministic upstream: the answer depends on the request alone. It reports 450
  requests left with the reading of gauge 09380000 and 449 with any other reading.
\<close>

definition metered_upstream :: "nat \<Rightarrow> request \<Rightarrow> get_result" where
  "metered_upstream k req =
     (if map_of (req_params req) ''monitoring_location_id'' = Some ''USGS-09380000''
      then reply 200 (Some (''450'', ''500'')) (feature_body (PFloat (Finite (85 / 2))))
      else reply 200 (Some (''449'', ''500'')) (feature_body (PFloat (Finite 17))))"

section \<open>Notions used in the statements\<close>

text \<open>
  An entry is well formed when it is a mapping with the key \<^verbatim>\<open>id\<close>; a document is
  malformed when it is not a list or holds an entry that is not well formed.
\<close>

definition well_formed_entry :: "pyval \<Rightarrow> bool" where
  "well_formed_entry g = (case g of PDict kvs \<Rightarrow> ''id'' \<in> fst ` set kvs | _ \<Rightarrow> False)"

definition malformed :: "pyval \<Rightarrow> bool" where
  "malformed doc = (case doc of PList gs \<Rightarrow> list_ex (\<lambda>g. \<not> well_formed_entry g) gs | _ \<Rightarrow> True)"

text \<open>
  An answer of the upstream from which no reading can come: a transport failure, a status
  that \<^verbatim>\<open>raise_for_status\<close> rejects, or a body that is not JSON.
\<close>

definition unusable :: "get_result \<Rightarrow> bool" where
  "unusable res =
     (case res of
        Failed e \<Rightarrow> True
      | Responded r \<Rightarrow> (400 \<le> status_code r \<and> status_code r < 600) \<or> json_body r = None)"

text \<open>The id a well-formed entry is submitted with, \<^verbatim>\<open>g["id"]\<close>.\<close>

definition id_of :: "pyval \<Rightarrow> pyval" where
  "id_of g = (case g of PDict kvs \<Rightarrow> dict_get kvs ''id'' PNone | _ \<Rightarrow> PNone)"

text \<open>
  The label values lines 160 to 162 compute for a descriptor: the id, the friendly name
  (falling back to the name, then to the id) and the name (falling back to the id), each
  as \<^verbatim>\<open>labels\<close> formats it.
\<close>

definition labels_of :: "builtins \<Rightarrow> pyval \<Rightarrow> string \<times> string \<times> string" where
  "labels_of L g =
     (case g of
        PDict kvs \<Rightarrow>
          (let gauge_id = dict_get kvs ''id'' PNone;
               location_name = dict_get kvs ''name'' gauge_id;
               friendly = dict_get kvs ''friendly_name'' location_name
           in (str_of L gauge_id, str_of L friendly, str_of L location_name))
      | _ \<Rightarrow> ([], [], []))"

text \<open>
  The value a fetch returns. It does not depend on the registry the fetch starts from
  (lemma \<open>fetch_usgs_gauge_fetched\<close>), so it is read off a run from the fresh one.
\<close>

definition fetched :: "builtins \<Rightarrow> config \<Rightarrow> (nat \<Rightarrow> request \<Rightarrow> get_result) \<Rightarrow> pyval \<Rightarrow> pyfloat" where
  "fetched L cfg session_get gauge_id =
     (case snd (fetch_usgs_gauge L cfg session_get gauge_id fresh_registry) of
        Inl e \<Rightarrow> NaN
      | Inr v \<Rightarrow> v)"

text \<open>
  The samples of \<^verbatim>\<open>USGS_STREAMFLOW\<close> after the futures of \<open>order\<close> have been processed,
  starting from the samples \<open>m\<close>.
\<close>

definition samples ::
  "builtins \<Rightarrow> config \<Rightarrow> (nat \<Rightarrow> nat \<Rightarrow> request \<Rightarrow> get_result) \<Rightarrow> pyval list \<Rightarrow> nat list \<Rightarrow>
   (string \<times> string \<times> string \<rightharpoonup> pyfloat) \<Rightarrow> (string \<times> string \<times> string \<rightharpoonup> pyfloat)" where
  "samples L cfg upstream gs order m =
     fold (\<lambda>i m. if i < length gs
                  then m(labels_of L (gs ! i) \<mapsto> fetched L cfg (upstream i) (id_of (gs ! i)))
                  else m) order m"

section \<open>Properties of \<^verbatim>\<open>load_gauges\<close>\<close>

text \<open>
  The validation loop accepts a list exactly when every entry is well formed, and the
  function returns either nothing or the list as it was loaded.
\<close>

lemma check_entries_iff:
  "check_entries gs = (if list_ex (\<lambda>g. \<not> well_formed_entry g) gs then Inl ValueError else Inr ())"
proof (induction gs)
  case Nil
  show ?case by simp
next
  case (Cons g gs)
  show ?case
  proof (cases g)
    case (PDict kvs)
    then show ?thesis
      using Cons.IH by (simp add: well_formed_entry_def map_of_eq_None_iff)
  qed (simp_all add: well_formed_entry_def)
qed

lemma load_gauges_try_list:
  "load_gauges_try (Inr (PList gs)) =
     (if list_ex (\<lambda>g. \<not> well_formed_entry g) gs then Inl ValueError else Inr gs)"
  by (simp add: load_gauges_try_def check_entries_iff)

lemma load_gauges_try_whole:
  "load_gauges_try file = Inr gs \<Longrightarrow> file = Inr (PList gs) \<and> list_all well_formed_entry gs"
proof (cases "file")
  case (Inl e)
  assume "load_gauges_try file = Inr gs"
  with Inl show ?thesis by (simp add: load_gauges_try_def)
next
  case (Inr doc)
  assume ok: "load_gauges_try file = Inr gs"
  show ?thesis
  proof (cases doc)
    case (PList xs)
    with Inr ok show ?thesis
      by (auto simp: load_gauges_try_list list_ex_iff list_all_iff split: if_splits)
  qed (use Inr ok in \<open>simp_all add: load_gauges_try_def\<close>)
qed

lemma load_gauges_ok:
  "load_gauges_try file = Inr gs \<Longrightarrow> load_gauges file s = (gs, s)"
  by (simp add: load_gauges_def)

text \<open>
  C8. A document that is not a list, or a list with an entry that is not a mapping or
  lacks \<^verbatim>\<open>id\<close>, is rejected whole: \<^verbatim>\<open>load_gauges\<close> returns the empty list and prints one
  error line. Whatever the file holds, the result is the empty list or the whole list of
  the file, never a part of it.
\<close>

theorem load_gauges_rejects_whole_list:
  "(malformed doc \<longrightarrow>
      load_gauges (Inr doc) s = ([], s\<lparr>stdout := stdout s @ [ErrorLoadingGauges ValueError]\<rparr>))
   \<and> (fst (load_gauges file s) = [] \<or> file = Inr (PList (fst (load_gauges file s))))"
proof
  show "malformed doc \<longrightarrow>
      load_gauges (Inr doc) s = ([], s\<lparr>stdout := stdout s @ [ErrorLoadingGauges ValueError]\<rparr>)"
  proof
    assume bad: "malformed doc"
    have "load_gauges_try (Inr doc) = Inl ValueError"
    proof (cases doc)
      case (PList gs)
      with bad show ?thesis by (simp add: malformed_def load_gauges_try_list)
    qed (simp_all add: load_gauges_try_def)
    then show "load_gauges (Inr doc) s = ([], s\<lparr>stdout := stdout s @ [ErrorLoadingGauges ValueError]\<rparr>)"
      by (simp add: load_gauges_def)
  qed
next
  show "fst (load_gauges file s) = [] \<or> file = Inr (PList (fst (load_gauges file s)))"
  proof (cases "load_gauges_try file")
    case (Inl e)
    then show ?thesis by (simp add: load_gauges_def)
  next
    case (Inr gs)
    then show ?thesis
      using load_gauges_try_whole[of "file" gs] by (simp add: load_gauges_def)
  qed
qed

theorem load_gauges_rejects_whole_list_witness:
  "malformed (PList [gauge_entry ''09380000'' ''Lees Ferry'', PDict [(''name'', PStr ''no id'')]])
   \<and> load_gauges (Inr (PList [gauge_entry ''09380000'' ''Lees Ferry'',
                              PDict [(''name'', PStr ''no id'')]])) fresh_registry
       = ([], fresh_registry\<lparr>stdout := [ErrorLoadingGauges ValueError]\<rparr>)"
proof -
  have bad: "malformed (PList [gauge_entry ''09380000'' ''Lees Ferry'',
                               PDict [(''name'', PStr ''no id'')]])"
    by (simp add: malformed_def well_formed_entry_def gauge_entry_def)
  from load_gauges_rejects_whole_list[of _ fresh_registry "Inl OSError"] bad
  show ?thesis by (simp add: fresh_registry_def)
qed

section \<open>Reading the body\<close>

text \<open>
  What lines 128 to 135 return on the bodies the upstream documents, and on an empty
  feature list.
\<close>

lemma bit_length_le: "n < 2 ^ k \<Longrightarrow> bit_length n \<le> k"
proof (induction k arbitrary: n)
  case 0
  then show ?case by (simp add: bit_length.simps)
next
  case (Suc k)
  show ?case
  proof (cases "n = 0")
    case True
    then show ?thesis by (simp add: bit_length.simps)
  next
    case False
    from Suc.prems have "n div 2 < 2 ^ k" by simp
    then have "bit_length (n div 2) \<le> k" by (rule Suc.IH)
    with False show ?thesis by (subst bit_length.simps) simp
  qed
qed

lemma float_of_int_exact: "\<bar>n\<bar> < 2 ^ 53 \<Longrightarrow> float_of_int n = Inr (Finite (of_int n))"
proof -
  assume "\<bar>n\<bar> < 2 ^ 53"
  then have "nat \<bar>n\<bar> < 2 ^ 53" by simp
  then have "bit_length (nat \<bar>n\<bar>) \<le> 53" by (rule bit_length_le)
  then show ?thesis by (simp add: float_of_int_def Let_def)
qed

lemma read_value_feature:
  assumes "map_of data ''features'' = Some (PList (PDict feature # rest))"
    and "map_of feature ''properties'' = Some (PDict props)"
  shows "read_value L (Some (PDict data)) =
           (case map_of props ''value'' of
              None \<Rightarrow> Inl TypeError
            | Some (PDict inner) \<Rightarrow> py_float L (dict_get inner ''value'' (PFloat NaN))
            | Some v \<Rightarrow> py_float L v)"
  using assms by (simp add: read_value_def dict_get_def split: option.splits pyval.splits)

lemma read_value_no_feature:
  "map_of data ''features'' = Some (PList []) \<Longrightarrow> read_value L (Some (PDict data)) = Inr NaN"
  by (simp add: read_value_def dict_get_def)

text \<open>
  C6. On a body whose first feature is a mapping with a \<^verbatim>\<open>properties\<close> mapping: a float
  \<^verbatim>\<open>value\<close> is returned as it is (42.5 gives 42.5) and an integer one as the same number
  (below \<open>2 ^ 53\<close>, where \<^verbatim>\<open>float\<close> is exact); a nested mapping yields its inner
  \<^verbatim>\<open>value\<close> in the same way, and NaN when it has none. An empty feature
  list yields NaN, and no exception is raised.
\<close>

theorem read_value_outcomes:
  "(map_of data ''features'' = Some (PList (PDict feature # rest)) \<and>
    map_of feature ''properties'' = Some (PDict props) \<longrightarrow>
      (map_of props ''value'' = Some (PFloat x) \<longrightarrow> read_value L (Some (PDict data)) = Inr x) \<and>
      (map_of props ''value'' = Some (PInt n) \<and> \<bar>n\<bar> < 2 ^ 53 \<longrightarrow>
         read_value L (Some (PDict data)) = Inr (Finite (of_int n))) \<and>
      (map_of props ''value'' = Some (PDict inner) \<and> map_of inner ''value'' = Some (PFloat x) \<longrightarrow>
         read_value L (Some (PDict data)) = Inr x) \<and>
      (map_of props ''value'' = Some (PDict inner) \<and> map_of inner ''value'' = Some (PInt n) \<and>
       \<bar>n\<bar> < 2 ^ 53 \<longrightarrow>
         read_value L (Some (PDict data)) = Inr (Finite (of_int n))) \<and>
      (map_of props ''value'' = Some (PDict inner) \<and> map_of inner ''value'' = None \<longrightarrow>
         read_value L (Some (PDict data)) = Inr NaN)) \<and>
   (map_of data ''features'' = Some (PList []) \<longrightarrow> read_value L (Some (PDict data)) = Inr NaN)"
proof (intro conjI impI)
  assume h: "map_of data ''features'' = Some (PList (PDict feature # rest)) \<and>
    map_of feature ''properties'' = Some (PDict props)"
  note rv = read_value_feature[OF conjunct1[OF h] conjunct2[OF h], of L]
  show "read_value L (Some (PDict data)) = Inr x" if "map_of props ''value'' = Some (PFloat x)"
    using that rv by simp
  show "read_value L (Some (PDict data)) = Inr (Finite (of_int n))"
    if "map_of props ''value'' = Some (PInt n) \<and> \<bar>n\<bar> < 2 ^ 53"
    using that rv by (simp add: float_of_int_exact)
  show "read_value L (Some (PDict data)) = Inr x"
    if "map_of props ''value'' = Some (PDict inner) \<and> map_of inner ''value'' = Some (PFloat x)"
    using that rv by (simp add: dict_get_def)
  show "read_value L (Some (PDict data)) = Inr (Finite (of_int n))"
    if "map_of props ''value'' = Some (PDict inner) \<and> map_of inner ''value'' = Some (PInt n) \<and>
        \<bar>n\<bar> < 2 ^ 53"
    using that rv by (simp add: dict_get_def float_of_int_exact)
  show "read_value L (Some (PDict data)) = Inr NaN"
    if "map_of props ''value'' = Some (PDict inner) \<and> map_of inner ''value'' = None"
    using that rv by (simp add: dict_get_def)
next
  assume "map_of data ''features'' = Some (PList [])"
  then show "read_value L (Some (PDict data)) = Inr NaN" by (rule read_value_no_feature)
qed

theorem read_value_outcomes_witness:
  "read_value plain_builtins (Some (feature_body (PFloat (Finite (85 / 2))))) = Inr (Finite (85 / 2)) \<and>
   read_value plain_builtins (Some (feature_body (PInt 42))) = Inr (Finite 42) \<and>
   read_value plain_builtins
     (Some (feature_body (PDict [(''value'', PFloat (Finite (85 / 2))), (''qualifiers'', PList [])])))
     = Inr (Finite (85 / 2)) \<and>
   read_value plain_builtins (Some (feature_body (PDict [(''qualifiers'', PList [])]))) = Inr NaN \<and>
   read_value plain_builtins (Some (PDict [(''features'', PList [])])) = Inr NaN"
proof -
  let ?data = "\<lambda>v. [(''features'', PList [PDict [(''properties'', PDict [(''value'', v)])]])]"
  let ?feature = "\<lambda>v. [(''properties'', PDict [(''value'', v)])]"
  have a: "read_value plain_builtins (Some (PDict (?data (PFloat (Finite (85 / 2)))))) = Inr (Finite (85 / 2))"
    using read_value_outcomes[of "?data (PFloat (Finite (85 / 2)))" "?feature (PFloat (Finite (85 / 2)))" "[]"
        "[(''value'', PFloat (Finite (85 / 2)))]" "Finite (85 / 2)" plain_builtins 0 "[]"]
    by simp
  have b: "read_value plain_builtins (Some (PDict (?data (PInt 42)))) = Inr (Finite 42)"
    using read_value_outcomes[of "?data (PInt 42)" "?feature (PInt 42)" "[]"
        "[(''value'', PInt 42)]" NaN plain_builtins 42 "[]"]
    by simp
  let ?nested = "[(''value'', PFloat (Finite (85 / 2))), (''qualifiers'', PList [])]"
  have c: "read_value plain_builtins (Some (PDict (?data (PDict ?nested)))) = Inr (Finite (85 / 2))"
    using read_value_outcomes[of "?data (PDict ?nested)" "?feature (PDict ?nested)" "[]"
        "[(''value'', PDict ?nested)]" "Finite (85 / 2)" plain_builtins 0 ?nested]
    by simp
  let ?bare = "[(''qualifiers'', PList [])]"
  have d: "read_value plain_builtins (Some (PDict (?data (PDict ?bare)))) = Inr NaN"
    using read_value_outcomes[of "?data (PDict ?bare)" "?feature (PDict ?bare)" "[]"
        "[(''value'', PDict ?bare)]" NaN plain_builtins 0 ?bare]
    by simp
  have e: "read_value plain_builtins (Some (PDict [(''features'', PList [])])) = Inr NaN"
    using read_value_outcomes[of "[(''features'', PList [])]" "[]" "[]" "[]" NaN plain_builtins 0 "[]"]
    by simp
  from a b c d e show ?thesis by (simp add: feature_body_def)
qed

section \<open>What a fetch changes and what it returns\<close>

text \<open>
  A fetch writes the three rate-limit gauges and prints warnings; it touches nothing else
  of the registry. What it returns depends on the answers of the upstream alone, not on
  the registry it starts from nor on the gauge id beyond its string form.
\<close>

lemma snd_labelled_set: "snd (labelled_set m k a) = snd (labelled_set m' k a)"
  by (simp add: labelled_set_def Let_def split: sum.splits)

lemma snd_set_header_gauge: "snd (set_header_gauge m k h) = snd (set_header_gauge m' k h)"
  using snd_labelled_set[of m k "int_of_header h" m']
  by (cases h) (auto simp: set_header_gauge_def case_prod_unfold split: sum.splits)

lemma rate_limit_metrics_result:
  "snd (rate_limit_metrics r key_label s) = snd (rate_limit_metrics r key_label s')"
  using snd_set_header_gauge[of "USGS_API_RATELIMIT_REMAINING s" key_label "headers r ''X-RateLimit-Remaining''" "USGS_API_RATELIMIT_REMAINING s'"]
        snd_set_header_gauge[of "USGS_API_RATELIMIT_LIMIT s" key_label "headers r ''X-RateLimit-Limit''" "USGS_API_RATELIMIT_LIMIT s'"]
        snd_labelled_set[of "USGS_API_REQUESTS_PER_HOUR s" key_label _ "USGS_API_REQUESTS_PER_HOUR s'"]
  by (simp add: rate_limit_metrics_def Let_def case_prod_unfold split: sum.splits)

lemma rate_limit_metrics_frame:
  "USGS_STREAMFLOW (fst (rate_limit_metrics r key_label s)) = USGS_STREAMFLOW s"
  "SCRAPE_SUCCESS (fst (rate_limit_metrics r key_label s)) = SCRAPE_SUCCESS s"
  "SCRAPE_FAILURE (fst (rate_limit_metrics r key_label s)) = SCRAPE_FAILURE s"
  "GAUGES_TOTAL (fst (rate_limit_metrics r key_label s)) = GAUGES_TOTAL s"
  "SCRAPE_DURATION (fst (rate_limit_metrics r key_label s)) = SCRAPE_DURATION s"
  "stdout (fst (rate_limit_metrics r key_label s)) = stdout s"
  by (simp_all add: rate_limit_metrics_def Let_def case_prod_unfold split: sum.splits)

lemma try_block_result:
  "snd (try_block L get params key_label api_key s) = snd (try_block L get params key_label api_key s')"
proof -
  have "snd (rate_limit_metrics r key_label s) = snd (rate_limit_metrics r key_label s')" for r
    by (rule rate_limit_metrics_result)
  then show ?thesis
    by (simp add: try_block_def Let_def case_prod_unfold split: get_result.splits sum.splits)
qed

lemma try_block_frame:
  "USGS_STREAMFLOW (fst (try_block L get params key_label api_key s)) = USGS_STREAMFLOW s"
  "SCRAPE_SUCCESS (fst (try_block L get params key_label api_key s)) = SCRAPE_SUCCESS s"
  "SCRAPE_FAILURE (fst (try_block L get params key_label api_key s)) = SCRAPE_FAILURE s"
  "GAUGES_TOTAL (fst (try_block L get params key_label api_key s)) = GAUGES_TOTAL s"
  "SCRAPE_DURATION (fst (try_block L get params key_label api_key s)) = SCRAPE_DURATION s"
  "stdout (fst (try_block L get params key_label api_key s)) = stdout s"
  by (simp_all add: try_block_def Let_def case_prod_unfold rate_limit_metrics_frame
        split: get_result.splits sum.splits)

lemma fetch_loop_returns:
  "\<exists>v. snd (fetch_loop L session_get gauge_id params k keys s) = Inr v"
proof (induction keys arbitrary: k s)
  case Nil
  show ?case by simp
next
  case (Cons key keys)
  obtain key_label api_key where key: "key = (key_label, api_key)" by (cases key)
  obtain s1 res where tb: "try_block L (session_get k) params key_label api_key s = (s1, res)"
    by (cases "try_block L (session_get k) params key_label api_key s")
  show ?case
  proof (cases res)
    case (Inr v)
    with key tb show ?thesis by simp
  next
    case (Inl e)
    with key tb Cons.IH show ?thesis by simp
  qed
qed

lemma fetch_loop_frame:
  "USGS_STREAMFLOW (fst (fetch_loop L session_get gauge_id params k keys s)) = USGS_STREAMFLOW s \<and>
   SCRAPE_SUCCESS (fst (fetch_loop L session_get gauge_id params k keys s)) = SCRAPE_SUCCESS s \<and>
   SCRAPE_FAILURE (fst (fetch_loop L session_get gauge_id params k keys s)) = SCRAPE_FAILURE s \<and>
   GAUGES_TOTAL (fst (fetch_loop L session_get gauge_id params k keys s)) = GAUGES_TOTAL s \<and>
   SCRAPE_DURATION (fst (fetch_loop L session_get gauge_id params k keys s)) = SCRAPE_DURATION s"
proof (induction keys arbitrary: k s)
  case Nil
  show ?case by simp
next
  case (Cons key keys)
  obtain key_label api_key where key: "key = (key_label, api_key)" by (cases key)
  obtain s1 res where tb: "try_block L (session_get k) params key_label api_key s = (s1, res)"
    by (cases "try_block L (session_get k) params key_label api_key s")
  have s1: "USGS_STREAMFLOW s1 = USGS_STREAMFLOW s" "SCRAPE_SUCCESS s1 = SCRAPE_SUCCESS s"
    "SCRAPE_FAILURE s1 = SCRAPE_FAILURE s" "GAUGES_TOTAL s1 = GAUGES_TOTAL s"
    "SCRAPE_DURATION s1 = SCRAPE_DURATION s"
    using try_block_frame[of L "session_get k" params key_label api_key s] tb by simp_all
  show ?case
  proof (cases res)
    case (Inr v)
    with key tb s1 show ?thesis by simp
  next
    case (Inl e)
    with key tb s1 Cons.IH show ?thesis by simp
  qed
qed

lemma fetch_loop_result:
  "snd (fetch_loop L session_get gauge_id params k keys s) =
   snd (fetch_loop L session_get gauge_id' params k keys s')"
proof (induction keys arbitrary: k s s')
  case Nil
  show ?case by simp
next
  case (Cons key keys)
  obtain key_label api_key where key: "key = (key_label, api_key)" by (cases key)
  obtain s1 res where tb: "try_block L (session_get k) params key_label api_key s = (s1, res)"
    by (cases "try_block L (session_get k) params key_label api_key s")
  obtain s1' res' where tb': "try_block L (session_get k) params key_label api_key s' = (s1', res')"
    by (cases "try_block L (session_get k) params key_label api_key s'")
  have res: "res' = res"
    using try_block_result[of L "session_get k" params key_label api_key s s'] tb tb' by simp
  show ?case
  proof (cases res)
    case (Inr v)
    with key tb tb' res show ?thesis by simp
  next
    case (Inl e)
    with key tb tb' res Cons.IH[of "Suc k"] show ?thesis by simp
  qed
qed

lemma fetch_usgs_gauge_fetched:
  "snd (fetch_usgs_gauge L cfg session_get gauge_id s) = Inr (fetched L cfg session_get gauge_id)"
proof -
  obtain v where v: "snd (fetch_usgs_gauge L cfg session_get gauge_id fresh_registry) = Inr v"
    unfolding fetch_usgs_gauge_def using fetch_loop_returns by blast
  have "snd (fetch_usgs_gauge L cfg session_get gauge_id s) =
        snd (fetch_usgs_gauge L cfg session_get gauge_id fresh_registry)"
    unfolding fetch_usgs_gauge_def by (rule fetch_loop_result)
  with v show ?thesis by (simp add: fetched_def)
qed

lemma fetch_usgs_gauge_frame:
  "USGS_STREAMFLOW (fst (fetch_usgs_gauge L cfg session_get gauge_id s)) = USGS_STREAMFLOW s"
  "SCRAPE_SUCCESS (fst (fetch_usgs_gauge L cfg session_get gauge_id s)) = SCRAPE_SUCCESS s"
  "SCRAPE_FAILURE (fst (fetch_usgs_gauge L cfg session_get gauge_id s)) = SCRAPE_FAILURE s"
  "GAUGES_TOTAL (fst (fetch_usgs_gauge L cfg session_get gauge_id s)) = GAUGES_TOTAL s"
  "SCRAPE_DURATION (fst (fetch_usgs_gauge L cfg session_get gauge_id s)) = SCRAPE_DURATION s"
  unfolding fetch_usgs_gauge_def using fetch_loop_frame by blast+

lemma fetched_keys:
  "API_KEY_PRIMARY cfg = API_KEY_PRIMARY cfg' \<Longrightarrow> API_KEY_BACKUP cfg = API_KEY_BACKUP cfg' \<Longrightarrow>
   fetched L cfg session_get gauge_id = fetched L cfg' session_get gauge_id"
  by (simp add: fetched_def fetch_usgs_gauge_def)

lemma fetched_str_of:
  assumes "str_of L gauge_id = str_of L gauge_id'"
  shows "fetched L cfg session_get gauge_id = fetched L cfg session_get gauge_id'"
proof -
  have "request_params L gauge_id = request_params L gauge_id'"
    using assms by (simp add: request_params_def)
  then have "snd (fetch_usgs_gauge L cfg session_get gauge_id fresh_registry) =
             snd (fetch_usgs_gauge L cfg session_get gauge_id' fresh_registry)"
    unfolding fetch_usgs_gauge_def by (simp only: fetch_loop_result[of L session_get gauge_id _ _ _ _ gauge_id' fresh_registry])
  then show ?thesis by (simp only: fetched_def)
qed

section \<open>No exception leaves a fetch\<close>

text \<open>
  Every exception of the \<^verbatim>\<open>try\<close> block meets a handler, and the handlers go on to the next
  key.
\<close>

lemma try_block_unusable:
  assumes "\<And>req. unusable (get req)"
  shows "\<exists>e. snd (try_block L get params key_label api_key s) = Inl e"
proof -
  define req where "req = \<lparr>url = API_URL,
      req_headers = (case api_key of None \<Rightarrow> [] | Some k \<Rightarrow> if k = [] then [] else [(''X-Api-Key'', k)]),
      req_params = params, timeout = 10\<rparr>"
  have u: "unusable (get req)" by (rule assms)
  show ?thesis
  proof (cases "get req")
    case (Failed e)
    then show ?thesis by (simp add: try_block_def req_def)
  next
    case (Responded r)
    show ?thesis
    proof (cases "400 \<le> status_code r \<and> status_code r < 600")
      case True
      with Responded show ?thesis by (simp add: try_block_def req_def)
    next
      case False
      with u Responded have "json_body r = None" by (simp add: unusable_def)
      then have "read_value L (json_body r) = Inl JSONDecodeError" by (simp add: read_value_def)
      with Responded False show ?thesis
        by (simp add: try_block_def req_def[symmetric] case_prod_unfold split: sum.splits)
    qed
  qed
qed

lemma fetch_loop_two_failures:
  assumes "snd (try_block L (session_get k) params l1 a1 s) = Inl e1"
    and "snd (try_block L (session_get (Suc k)) params l2 a2 s) = Inl e2"
  shows "snd (fetch_loop L session_get gauge_id params k [(l1, a1), (l2, a2)] s) = Inr NaN \<and>
         stdout (fst (fetch_loop L session_get gauge_id params k [(l1, a1), (l2, a2)] s)) =
           stdout s @ handlers gauge_id l1 e1 @ handlers gauge_id l2 e2"
proof -
  obtain s1 where tb1: "try_block L (session_get k) params l1 a1 s = (s1, Inl e1)"
    using assms(1) by (cases "try_block L (session_get k) params l1 a1 s") simp
  have out1: "stdout s1 = stdout s"
    using try_block_frame(6)[of L "session_get k" params l1 a1 s] tb1 by simp
  define s1' where "s1' = s1\<lparr>stdout := stdout s1 @ handlers gauge_id l1 e1\<rparr>"
  have "snd (try_block L (session_get (Suc k)) params l2 a2 s1') = Inl e2"
    using try_block_result[of L "session_get (Suc k)" params l2 a2 s1' s] assms(2) by simp
  then obtain s2 where tb2: "try_block L (session_get (Suc k)) params l2 a2 s1' = (s2, Inl e2)"
    by (cases "try_block L (session_get (Suc k)) params l2 a2 s1'") simp
  have out2: "stdout s2 = stdout s1'"
    using try_block_frame(6)[of L "session_get (Suc k)" params l2 a2 s1'] tb2 by simp
  from tb1 tb2 out1 out2 show ?thesis by (simp add: s1'_def)
qed

text \<open>
  C7. \<^verbatim>\<open>fetch_usgs_gauge\<close> returns a value whatever the upstream answers; no exception
  leaves it. When the \<^verbatim>\<open>try\<close> block raises for both keys, whatever the exceptions are,
  the result is NaN and the handlers have printed one warning for each exception other
  than a 429, in key order. In particular the result is NaN when every answer is a transport
  failure, an error status or a body that does not decode.
\<close>

theorem fetch_usgs_gauge_never_raises:
  "(\<exists>v. snd (fetch_usgs_gauge L cfg session_get gauge_id s) = Inr v) \<and>
   (snd (try_block L (session_get 0) (request_params L gauge_id) ''primary'' (API_KEY_PRIMARY cfg) s)
      = Inl e1 \<and>
    snd (try_block L (session_get 1) (request_params L gauge_id) ''backup'' (API_KEY_BACKUP cfg) s)
      = Inl e2 \<longrightarrow>
      snd (fetch_usgs_gauge L cfg session_get gauge_id s) = Inr NaN \<and>
      stdout (fst (fetch_usgs_gauge L cfg session_get gauge_id s)) =
        stdout s @ handlers gauge_id ''primary'' e1 @ handlers gauge_id ''backup'' e2) \<and>
   ((\<forall>k req. unusable (session_get k req)) \<longrightarrow>
      snd (fetch_usgs_gauge L cfg session_get gauge_id s) = Inr NaN)"
proof (intro conjI impI)
  show "\<exists>v. snd (fetch_usgs_gauge L cfg session_get gauge_id s) = Inr v"
    unfolding fetch_usgs_gauge_def by (rule fetch_loop_returns)
next
  assume h: "snd (try_block L (session_get 0) (request_params L gauge_id) ''primary'' (API_KEY_PRIMARY cfg) s)
      = Inl e1 \<and>
    snd (try_block L (session_get 1) (request_params L gauge_id) ''backup'' (API_KEY_BACKUP cfg) s)
      = Inl e2"
  from h have h2: "snd (try_block L (session_get (Suc 0)) (request_params L gauge_id) ''backup'' (API_KEY_BACKUP cfg) s)
      = Inl e2" by simp
  note two = fetch_loop_two_failures[OF conjunct1[OF h] h2, of gauge_id]
  from two show "snd (fetch_usgs_gauge L cfg session_get gauge_id s) = Inr NaN"
    by (simp add: fetch_usgs_gauge_def)
  from two show "stdout (fst (fetch_usgs_gauge L cfg session_get gauge_id s)) =
        stdout s @ handlers gauge_id ''primary'' e1 @ handlers gauge_id ''backup'' e2"
    by (simp add: fetch_usgs_gauge_def)
next
  assume u: "\<forall>k req. unusable (session_get k req)"
  obtain e1 where e1: "snd (try_block L (session_get 0) (request_params L gauge_id) ''primary'' (API_KEY_PRIMARY cfg) s) = Inl e1"
    using try_block_unusable[of "session_get 0"] u by blast
  obtain e2 where e2: "snd (try_block L (session_get (Suc 0)) (request_params L gauge_id) ''backup'' (API_KEY_BACKUP cfg) s) = Inl e2"
    using try_block_unusable[of "session_get (Suc 0)"] u by blast
  from fetch_loop_two_failures[OF e1 e2, of gauge_id]
  show "snd (fetch_usgs_gauge L cfg session_get gauge_id s) = Inr NaN"
    by (simp add: fetch_usgs_gauge_def)
qed

theorem fetch_usgs_gauge_never_raises_witness:
  "snd (fetch_usgs_gauge plain_builtins (two_keys 10)
          (\<lambda>k req. if k = 0 then Failed Timeout else reply 404 None PNone)
          (PStr ''09380000'') fresh_registry) = Inr NaN \<and>
   stdout (fst (fetch_usgs_gauge plain_builtins (two_keys 10)
          (\<lambda>k req. if k = 0 then Failed Timeout else reply 404 None PNone)
          (PStr ''09380000'') fresh_registry)) =
     [WarnFetching (PStr ''09380000'') ''primary'' (RequestException Timeout),
      WarnHTTPError (PStr ''09380000'') ''backup'' (HTTPError 404)]"
proof -
  let ?get = "\<lambda>k req. if k = (0::nat) then Failed Timeout else reply 404 None PNone"
  have a: "snd (try_block plain_builtins (?get 0) (request_params plain_builtins (PStr ''09380000''))
             ''primary'' (API_KEY_PRIMARY (two_keys 10)) fresh_registry) = Inl (RequestException Timeout)"
    by (simp add: try_block_def)
  have b: "snd (try_block plain_builtins (?get 1) (request_params plain_builtins (PStr ''09380000''))
             ''backup'' (API_KEY_BACKUP (two_keys 10)) fresh_registry) = Inl (HTTPError 404)"
    by (simp add: try_block_def reply_def)
  from fetch_usgs_gauge_never_raises[of plain_builtins "two_keys 10" ?get "PStr ''09380000''"
      fresh_registry "RequestException Timeout" "HTTPError 404"] a b
  show ?thesis by (simp add: handlers_def fresh_registry_def)
qed

section \<open>Rate-limit headers and failover\<close>

text \<open>
  With both headers present and integers, the three gauges are set (450 of 500 left gives
  50 used) and the body is read; a 429 on the primary key hands the fetch over to the
  backup key. Without the headers, line 125 raises before the body is read.
\<close>

lemma py_int_samples:
  "py_int ''450'' = Some 450" "py_int ''500'' = Some 500" "py_int ''449'' = Some 449"
  "py_int ''n/a'' = None"
  by code_simp+

lemma rate_limit_metrics_parsed:
  assumes "headers r ''X-RateLimit-Remaining'' = Some vr" and "py_int vr = Some m"
    and "headers r ''X-RateLimit-Limit'' = Some vl" and "py_int vl = Some l"
    and "\<bar>m\<bar> < 2 ^ 53" and "\<bar>l\<bar> < 2 ^ 53" and "\<bar>l - m\<bar> < 2 ^ 53"
  shows "rate_limit_metrics r key_label s =
           (s\<lparr>USGS_API_RATELIMIT_REMAINING :=
                 (USGS_API_RATELIMIT_REMAINING s)(key_label \<mapsto> Finite (of_int m)),
               USGS_API_RATELIMIT_LIMIT :=
                 (USGS_API_RATELIMIT_LIMIT s)(key_label \<mapsto> Finite (of_int l)),
               USGS_API_REQUESTS_PER_HOUR :=
                 (USGS_API_REQUESTS_PER_HOUR s)(key_label \<mapsto> Finite (of_int (l - m)))\<rparr>,
            Inr ())"
proof -
  have set_upd: "labelled_set mp key_label (Inr n) = (mp(key_label \<mapsto> Finite (of_int n)), Inr ())"
    if "\<bar>n\<bar> < 2 ^ 53" for mp :: "string \<rightharpoonup> pyfloat" and n
    using that by (simp add: labelled_set_def labels_child_def float_of_int_exact split: option.splits)
  have a: "set_header_gauge mp key_label (Some vr) = (mp(key_label \<mapsto> Finite (of_int m)), Inr ())" for mp
    using assms(2) set_upd[OF assms(5)] by (simp add: set_header_gauge_def int_of_header_def)
  have b: "set_header_gauge mp key_label (Some vl) = (mp(key_label \<mapsto> Finite (of_int l)), Inr ())" for mp
    using assms(4) set_upd[OF assms(6)] by (simp add: set_header_gauge_def int_of_header_def)
  show ?thesis
    using assms(1-4) a b set_upd[OF assms(7)]
    by (simp add: rate_limit_metrics_def int_of_header_def)
qed

lemma try_block_steady:
  "try_block L (steady_upstream k) params key_label api_key s =
     (s\<lparr>USGS_API_RATELIMIT_REMAINING := (USGS_API_RATELIMIT_REMAINING s)(key_label \<mapsto> Finite 450),
        USGS_API_RATELIMIT_LIMIT := (USGS_API_RATELIMIT_LIMIT s)(key_label \<mapsto> Finite 500),
        USGS_API_REQUESTS_PER_HOUR := (USGS_API_REQUESTS_PER_HOUR s)(key_label \<mapsto> Finite 50)\<rparr>,
      Inr (Finite (85 / 2)))"
proof -
  let ?r = "\<lparr>status_code = 200,
       headers = [''X-RateLimit-Remaining'' \<mapsto> ''450'', ''X-RateLimit-Limit'' \<mapsto> ''500''],
       json_body = Some (feature_body (PFloat (Finite (85 / 2))))\<rparr>"
  have rl: "rate_limit_metrics ?r key_label s =
     (s\<lparr>USGS_API_RATELIMIT_REMAINING := (USGS_API_RATELIMIT_REMAINING s)(key_label \<mapsto> Finite 450),
        USGS_API_RATELIMIT_LIMIT := (USGS_API_RATELIMIT_LIMIT s)(key_label \<mapsto> Finite 500),
        USGS_API_REQUESTS_PER_HOUR := (USGS_API_REQUESTS_PER_HOUR s)(key_label \<mapsto> Finite 50)\<rparr>, Inr ())"
    using rate_limit_metrics_parsed[of ?r "''450''" 450 "''500''" 500 key_label s]
    by (simp add: py_int_samples)
  have rv: "read_value L (Some (feature_body (PFloat (Finite (85 / 2))))) = Inr (Finite (85 / 2))"
    by (simp add: read_value_def feature_body_def dict_get_def)
  show ?thesis
    using rl rv by (simp add: try_block_def steady_upstream_def reply_def)
qed

lemma fetched_steady: "fetched L cfg steady_upstream gauge_id = Finite (85 / 2)"
  by (simp add: fetched_def fetch_usgs_gauge_def try_block_steady)

lemma try_block_no_headers:
  "try_block L (\<lambda>req. reply 200 None body) params key_label api_key s = (s, Inl TypeError)"
  by (simp add: try_block_def reply_def rate_limit_metrics_def set_header_gauge_def int_of_header_def)

lemma labels_child_upd: "(labels_child m k)(k \<mapsto> x) = m(k \<mapsto> x)"
  by (simp add: labels_child_def split: option.splits)

lemma try_block_bad_header:
  "try_block L (\<lambda>req. reply 200 (Some (''n/a'', ''500'')) body) params key_label api_key s =
     (s\<lparr>USGS_API_RATELIMIT_REMAINING := labels_child (USGS_API_RATELIMIT_REMAINING s) key_label,
        USGS_API_RATELIMIT_LIMIT := (USGS_API_RATELIMIT_LIMIT s)(key_label \<mapsto> Finite 500)\<rparr>,
      Inl ValueError)"
proof -
  have f500: "float_of_int 500 = Inr (Finite 500)"
    using float_of_int_exact[of 500] by simp
  show ?thesis
    by (simp add: try_block_def reply_def rate_limit_metrics_def set_header_gauge_def
        int_of_header_def py_int_samples labelled_set_def Let_def f500 labels_child_upd)
qed

text \<open>
  C3. Both keys are answered with status 200, no rate-limit header and a body that holds
  the reading 42.5. Line 125 calls \<^verbatim>\<open>int(None)\<close>, the \<^verbatim>\<open>TypeError\<close> is handled as a failed
  fetch for each key, and the result is NaN: the reading is lost and no gauge is set. When
  the remaining header is there but is not an integer, line 125 raises the \<^verbatim>\<open>ValueError\<close>
  that line 114 had passed over, with the same outcome.
\<close>

theorem reading_lost_without_rate_limit_headers:
  "fetch_usgs_gauge plain_builtins (two_keys 10)
     (\<lambda>k req. reply 200 None (feature_body (PFloat (Finite (85 / 2)))))
     (PStr ''09380000'') fresh_registry =
   (fresh_registry\<lparr>stdout :=
      [WarnFetching (PStr ''09380000'') ''primary'' TypeError,
       WarnFetching (PStr ''09380000'') ''backup'' TypeError]\<rparr>,
    Inr NaN) \<and>
   snd (fetch_usgs_gauge plain_builtins (two_keys 10)
     (\<lambda>k req. reply 200 (Some (''n/a'', ''500'')) (feature_body (PFloat (Finite (85 / 2)))))
     (PStr ''09380000'') fresh_registry) = Inr NaN \<and>
   stdout (fst (fetch_usgs_gauge plain_builtins (two_keys 10)
     (\<lambda>k req. reply 200 (Some (''n/a'', ''500'')) (feature_body (PFloat (Finite (85 / 2)))))
     (PStr ''09380000'') fresh_registry)) =
      [WarnFetching (PStr ''09380000'') ''primary'' ValueError,
       WarnFetching (PStr ''09380000'') ''backup'' ValueError]"
proof (intro conjI)
  show "fetch_usgs_gauge plain_builtins (two_keys 10)
     (\<lambda>k req. reply 200 None (feature_body (PFloat (Finite (85 / 2)))))
     (PStr ''09380000'') fresh_registry =
   (fresh_registry\<lparr>stdout :=
      [WarnFetching (PStr ''09380000'') ''primary'' TypeError,
       WarnFetching (PStr ''09380000'') ''backup'' TypeError]\<rparr>,
    Inr NaN)"
    by (simp add: fetch_usgs_gauge_def try_block_no_headers handlers_def fresh_registry_def)
  show "snd (fetch_usgs_gauge plain_builtins (two_keys 10)
     (\<lambda>k req. reply 200 (Some (''n/a'', ''500'')) (feature_body (PFloat (Finite (85 / 2)))))
     (PStr ''09380000'') fresh_registry) = Inr NaN"
    by (simp add: fetch_usgs_gauge_def try_block_bad_header)
  show "stdout (fst (fetch_usgs_gauge plain_builtins (two_keys 10)
     (\<lambda>k req. reply 200 (Some (''n/a'', ''500'')) (feature_body (PFloat (Finite (85 / 2)))))
     (PStr ''09380000'') fresh_registry)) =
      [WarnFetching (PStr ''09380000'') ''primary'' ValueError,
       WarnFetching (PStr ''09380000'') ''backup'' ValueError]"
    by (simp add: fetch_usgs_gauge_def try_block_bad_header handlers_def fresh_registry_def)
qed

lemma failover_on_429:
  assumes "\<And>req. session_get 0 req = Responded r0" and "status_code r0 = 429"
  shows "fetch_usgs_gauge L cfg session_get gauge_id s =
           (case try_block L (session_get 1) (request_params L gauge_id) ''backup''
                   (API_KEY_BACKUP cfg) s of
              (s1, Inr v) \<Rightarrow> (s1, Inr v)
            | (s1, Inl e) \<Rightarrow> (s1\<lparr>stdout := stdout s1 @ handlers gauge_id ''backup'' e\<rparr>, Inr NaN))"
proof -
  have first: "try_block L (session_get 0) params ''primary'' api_key s = (s, Inl (HTTPError 429))"
    for params api_key
    using assms by (simp add: try_block_def)
  show ?thesis
    by (simp add: fetch_usgs_gauge_def first handlers_def split: prod.splits sum.splits)
qed

lemma failover_returns_backup_reading:
  "fetch_usgs_gauge L cfg
     (\<lambda>k req. if k = 0 then reply 429 None PNone
                else reply 200 (Some (''450'', ''500'')) (feature_body (PFloat x)))
     gauge_id s =
   (s\<lparr>USGS_API_RATELIMIT_REMAINING := (USGS_API_RATELIMIT_REMAINING s)(''backup'' \<mapsto> Finite 450),
      USGS_API_RATELIMIT_LIMIT := (USGS_API_RATELIMIT_LIMIT s)(''backup'' \<mapsto> Finite 500),
      USGS_API_REQUESTS_PER_HOUR := (USGS_API_REQUESTS_PER_HOUR s)(''backup'' \<mapsto> Finite 50)\<rparr>,
    Inr x)"
proof -
  let ?get = "\<lambda>k req. if k = (0::nat) then reply 429 None PNone
                else reply 200 (Some (''450'', ''500'')) (feature_body (PFloat x))"
  let ?r = "\<lparr>status_code = 200,
       headers = [''X-RateLimit-Remaining'' \<mapsto> ''450'', ''X-RateLimit-Limit'' \<mapsto> ''500''],
       json_body = Some (feature_body (PFloat x))\<rparr>"
  have rl: "rate_limit_metrics ?r ''backup'' s =
     (s\<lparr>USGS_API_RATELIMIT_REMAINING := (USGS_API_RATELIMIT_REMAINING s)(''backup'' \<mapsto> Finite 450),
        USGS_API_RATELIMIT_LIMIT := (USGS_API_RATELIMIT_LIMIT s)(''backup'' \<mapsto> Finite 500),
        USGS_API_REQUESTS_PER_HOUR := (USGS_API_REQUESTS_PER_HOUR s)(''backup'' \<mapsto> Finite 50)\<rparr>, Inr ())"
    using rate_limit_metrics_parsed[of ?r "''450''" 450 "''500''" 500 "''backup''" s]
    by (simp add: py_int_samples)
  have rv: "read_value L (Some (feature_body (PFloat x))) = Inr x"
    by (simp add: read_value_def feature_body_def dict_get_def)
  have second: "try_block L (?get 1) (request_params L gauge_id) ''backup'' (API_KEY_BACKUP cfg) s =
     (s\<lparr>USGS_API_RATELIMIT_REMAINING := (USGS_API_RATELIMIT_REMAINING s)(''backup'' \<mapsto> Finite 450),
        USGS_API_RATELIMIT_LIMIT := (USGS_API_RATELIMIT_LIMIT s)(''backup'' \<mapsto> Finite 500),
        USGS_API_REQUESTS_PER_HOUR := (USGS_API_REQUESTS_PER_HOUR s)(''backup'' \<mapsto> Finite 50)\<rparr>,
      Inr x)"
    using rl rv by (simp add: try_block_def reply_def)
  have "fetch_usgs_gauge L cfg ?get gauge_id s =
           (case try_block L (?get 1) (request_params L gauge_id) ''backup''
                   (API_KEY_BACKUP cfg) s of
              (s1, Inr v) \<Rightarrow> (s1, Inr v)
            | (s1, Inl e) \<Rightarrow> (s1\<lparr>stdout := stdout s1 @ handlers gauge_id ''backup'' e\<rparr>, Inr NaN))"
    by (rule failover_on_429[of ?get "\<lparr>status_code = 429, headers = Map.empty, json_body = Some PNone\<rparr>"])
       (simp_all add: reply_def)
  then show ?thesis by (simp only: second prod.case sum.case)
qed

text \<open>
  C4. The primary key is answered with status 429 and the backup key with status 200 and a
  body that holds the reading 42.5, but no rate-limit header. The 429 is passed over
  silently and the backup is tried, as claimed, but its reading is lost at line 125 and
  the result is NaN.
\<close>

theorem failover_lost_without_rate_limit_headers:
  "fetch_usgs_gauge plain_builtins (two_keys 10)
     (\<lambda>k req. if k = 0 then reply 429 None PNone
                else reply 200 None (feature_body (PFloat (Finite (85 / 2)))))
     (PStr ''09380000'') fresh_registry =
   (fresh_registry\<lparr>stdout := [WarnFetching (PStr ''09380000'') ''backup'' TypeError]\<rparr>,
    Inr NaN)"
proof -
  have a: "try_block plain_builtins (\<lambda>req. reply 429 None PNone) params key_label api_key s =
             (s, Inl (HTTPError 429))" for params key_label api_key s
    by (simp add: try_block_def reply_def)
  show ?thesis
    by (simp add: fetch_usgs_gauge_def a try_block_no_headers handlers_def fresh_registry_def)
qed

section \<open>What a scrape computes\<close>

text \<open>
  For a non-empty list of well-formed entries and a positive \<^verbatim>\<open>MAX_WORKERS\<close> the handler
  returns. Every future that completes adds one to the success count, and none to the
  failure count, and sets the sample of its label triple.
\<close>

lemma float_ne_NaN: "float_ne v NaN"
  by (simp add: float_ne_def)

lemma well_formed_entryE:
  assumes "well_formed_entry g"
  obtains kvs v where "g = PDict kvs" "map_of kvs ''id'' = Some v"
proof (cases g)
  case (PDict kvs)
  with assms have "''id'' \<in> fst ` set kvs" by (simp add: well_formed_entry_def)
  then have "map_of kvs ''id'' \<noteq> None" by (simp add: map_of_eq_None_iff)
  then obtain v where "map_of kvs ''id'' = Some v" by blast
  with PDict that show ?thesis by blast
qed (use assms in \<open>simp_all add: well_formed_entry_def\<close>)

lemma item_str_id: "well_formed_entry g \<Longrightarrow> item_str g ''id'' = Inr (id_of g)"
  by (erule well_formed_entryE) (simp add: id_of_def dict_get_def)

lemma submit_all_well_formed:
  "list_all well_formed_entry gs \<Longrightarrow> submit_all gs = Inr (map (\<lambda>g. (id_of g, g)) gs)"
  by (induction gs) (simp_all add: item_str_id)

lemma process_future_well_formed:
  assumes "well_formed_entry g"
  shows "process_future L cfg session_get (id_of g, g) (s, a, b) =
           ((fst (fetch_usgs_gauge L cfg session_get (id_of g) s))
              \<lparr>USGS_STREAMFLOW := (USGS_STREAMFLOW s)
                 (labels_of L g \<mapsto> fetched L cfg session_get (id_of g))\<rparr>,
            Inr (Suc a, b))"
proof -
  from assms obtain kvs v where g: "g = PDict kvs" and v: "map_of kvs ''id'' = Some v"
    by (rule well_formed_entryE)
  obtain s1 res where f: "fetch_usgs_gauge L cfg session_get (id_of g) s = (s1, res)"
    by (cases "fetch_usgs_gauge L cfg session_get (id_of g) s")
  have res: "res = Inr (fetched L cfg session_get (id_of g))"
    using fetch_usgs_gauge_fetched[of L cfg session_get "id_of g" s] f by simp
  have sf: "USGS_STREAMFLOW s1 = USGS_STREAMFLOW s"
    using fetch_usgs_gauge_frame(1)[of L cfg session_get "id_of g" s] f by simp
  show ?thesis
    using f res sf g
    by (simp add: process_future_def labels_of_def Let_def float_ne_NaN)
qed

lemma as_completed_loop_well_formed:
  assumes wf: "list_all well_formed_entry gs"
  shows "\<exists>s'. as_completed_loop L cfg upstream (map (\<lambda>g. (id_of g, g)) gs) order (s, a, b) =
                (s', Inr (a + length (filter (\<lambda>i. i < length gs) order), b)) \<and>
              USGS_STREAMFLOW s' = samples L cfg upstream gs order (USGS_STREAMFLOW s) \<and>
              GAUGES_TOTAL s' = GAUGES_TOTAL s"
proof (induction order arbitrary: s a)
  case Nil
  show ?case by (simp add: samples_def)
next
  case (Cons i order)
  show ?case
  proof (cases "i < length gs")
    case False
    with Cons.IH[of s a] show ?thesis by (simp add: samples_def)
  next
    case True
    then have "well_formed_entry (gs ! i)"
      using wf by (simp add: list_all_length)
    note pf = process_future_well_formed[OF this, of L cfg "upstream i" s a b]
    define s1 where "s1 = (fst (fetch_usgs_gauge L cfg (upstream i) (id_of (gs ! i)) s))
              \<lparr>USGS_STREAMFLOW := (USGS_STREAMFLOW s)
                 (labels_of L (gs ! i) \<mapsto> fetched L cfg (upstream i) (id_of (gs ! i)))\<rparr>"
    have tot: "GAUGES_TOTAL s1 = GAUGES_TOTAL s"
      by (simp add: s1_def fetch_usgs_gauge_frame)
    have sf: "USGS_STREAMFLOW s1 = (USGS_STREAMFLOW s)
                 (labels_of L (gs ! i) \<mapsto> fetched L cfg (upstream i) (id_of (gs ! i)))"
      by (simp add: s1_def)
    from Cons.IH[of s1 "Suc a"] obtain s' where
      s': "as_completed_loop L cfg upstream (map (\<lambda>g. (id_of g, g)) gs) order (s1, Suc a, b) =
                (s', Inr (Suc a + length (filter (\<lambda>i. i < length gs) order), b))"
        "USGS_STREAMFLOW s' = samples L cfg upstream gs order (USGS_STREAMFLOW s1)"
        "GAUGES_TOTAL s' = GAUGES_TOTAL s1"
      by blast
    have step: "as_completed_loop L cfg upstream (map (\<lambda>g. (id_of g, g)) gs) (i # order) (s, a, b) =
        as_completed_loop L cfg upstream (map (\<lambda>g. (id_of g, g)) gs) order (s1, Suc a, b)"
      using True pf by (simp add: s1_def)
    show ?thesis
      using step s' tot sf True by (simp add: samples_def)
  qed
qed

lemma metrics_state:
  assumes ld: "load_gauges_try file = Inr gs" and ne: "gs \<noteq> []" and mw: "0 < MAX_WORKERS cfg"
  shows "metrics L cfg file upstream order t_start t_end s =
           ((fst (as_completed_loop L cfg upstream (map (\<lambda>g. (id_of g, g)) gs) order
                    (s\<lparr>GAUGES_TOTAL := length gs, USGS_STREAMFLOW := Map.empty\<rparr>, 0, 0)))
              \<lparr>SCRAPE_SUCCESS := length (filter (\<lambda>i. i < length gs) order),
               SCRAPE_FAILURE := 0, SCRAPE_DURATION := t_end - t_start\<rparr>,
            Inr ())"
proof -
  have wf: "list_all well_formed_entry gs"
    using load_gauges_try_whole[OF ld] by simp
  define s3 where "s3 = s\<lparr>GAUGES_TOTAL := length gs, USGS_STREAMFLOW := Map.empty\<rparr>"
  from ne have "0 < int (length gs)" by simp
  with mw have "\<not> min (MAX_WORKERS cfg) (int (length gs)) \<le> 0" by (simp add: min_def)
  then have pool: "ThreadPoolExecutor (min (MAX_WORKERS cfg) (int (length gs))) =
      Inr (nat (min (MAX_WORKERS cfg) (int (length gs))))"
    by (simp add: ThreadPoolExecutor_def)
  from as_completed_loop_well_formed[OF wf, of L cfg upstream order s3 0 0] obtain s4 where
    s4: "as_completed_loop L cfg upstream (map (\<lambda>g. (id_of g, g)) gs) order (s3, 0, 0) =
                (s4, Inr (length (filter (\<lambda>i. i < length gs) order), 0))"
    by auto
  show ?thesis
    using s4 by (simp add: metrics_def load_gauges_ok[OF ld] pool submit_all_well_formed[OF wf] s3_def)
qed

lemma metrics_returns:
  assumes ld: "load_gauges_try file = Inr gs" and ne: "gs \<noteq> []" and mw: "0 < MAX_WORKERS cfg"
  shows "\<exists>s'. metrics L cfg file upstream order t_start t_end s = (s', Inr ()) \<and>
              SCRAPE_SUCCESS s' = length (filter (\<lambda>i. i < length gs) order) \<and>
              SCRAPE_FAILURE s' = 0 \<and>
              GAUGES_TOTAL s' = length gs \<and>
              USGS_STREAMFLOW s' = samples L cfg upstream gs order Map.empty \<and>
              SCRAPE_DURATION s' = t_end - t_start"
proof -
  have wf: "list_all well_formed_entry gs"
    using load_gauges_try_whole[OF ld] by simp
  define s3 where "s3 = s\<lparr>GAUGES_TOTAL := length gs, USGS_STREAMFLOW := Map.empty\<rparr>"
  from ne have "0 < int (length gs)" by simp
  with mw have "\<not> min (MAX_WORKERS cfg) (int (length gs)) \<le> 0" by (simp add: min_def)
  then have pool: "ThreadPoolExecutor (min (MAX_WORKERS cfg) (int (length gs))) =
      Inr (nat (min (MAX_WORKERS cfg) (int (length gs))))"
    by (simp add: ThreadPoolExecutor_def)
  from as_completed_loop_well_formed[OF wf, of L cfg upstream order s3 0 0] obtain s4 where
    s4: "as_completed_loop L cfg upstream (map (\<lambda>g. (id_of g, g)) gs) order (s3, 0, 0) =
                (s4, Inr (length (filter (\<lambda>i. i < length gs) order), 0))"
        "USGS_STREAMFLOW s4 = samples L cfg upstream gs order (USGS_STREAMFLOW s3)"
        "GAUGES_TOTAL s4 = GAUGES_TOTAL s3"
    by auto
  have "metrics L cfg file upstream order t_start t_end s =
          (s4\<lparr>SCRAPE_SUCCESS := length (filter (\<lambda>i. i < length gs) order),
              SCRAPE_FAILURE := 0, SCRAPE_DURATION := t_end - t_start\<rparr>, Inr ())"
    using s4(1) by (simp add: metrics_def load_gauges_ok[OF ld] pool submit_all_well_formed[OF wf] s3_def)
  then show ?thesis
    using s4(2,3) by (simp add: s3_def)
qed

lemma permutation_in_range:
  "distinct order \<Longrightarrow> set order = {..<n} \<Longrightarrow> length (filter (\<lambda>i. i < n) order) = n"
proof -
  assume d: "distinct order" and s: "set order = {..<n}"
  have "filter (\<lambda>i. i < n) order = order"
    using s by (auto intro: filter_True)
  moreover have "length order = card (set order)"
    using d by (simp add: distinct_card)
  ultimately show ?thesis using s by simp
qed

lemma completion_order_samples:
  "completion_order 1 2 [0, 1]" "completion_order 2 2 [0, 1]" "completion_order 2 2 [1, 0]"
  "completion_order 1 1 [0]"
  by code_simp+

section \<open>The empty gauge list\<close>

text \<open>
  With no gauge the pool is asked for no worker, and the constructor refuses.
\<close>

text \<open>
  C1. A scrape over the empty gauge list, and a scrape whose gauge file cannot be loaded,
  does not return a snapshot: the pool is asked for \<^verbatim>\<open>min(MAX_WORKERS, 0) = 0\<close> workers, the
  constructor raises \<^verbatim>\<open>ValueError\<close>, and the handler leaves with that exception after it has
  set \<^verbatim>\<open>GAUGES_TOTAL\<close> to 0 and cleared the samples.
\<close>

theorem metrics_raises_on_empty_list:
  "metrics L cfg (Inr (PList [])) upstream order t_start t_end s =
     (s\<lparr>GAUGES_TOTAL := 0, USGS_STREAMFLOW := Map.empty\<rparr>, Inl ValueError) \<and>
   metrics L cfg (Inl e) upstream order t_start t_end s =
     (s\<lparr>stdout := stdout s @ [ErrorLoadingGauges e], GAUGES_TOTAL := 0,
        USGS_STREAMFLOW := Map.empty\<rparr>, Inl ValueError)"
  by (simp add: metrics_def load_gauges_def load_gauges_try_def ThreadPoolExecutor_def)

text \<open>
  C10. A scrape of one gauge followed by a scrape of the empty list: the second sets
  \<^verbatim>\<open>GAUGES_TOTAL\<close> to 0 and raises before lines 181 and 182, so the counters keep the
  values of the first scrape and sum to 1.
\<close>

theorem counters_stale_after_empty_list:
  "completion_order 1 1 [0] \<and>
   snd (metrics plain_builtins (two_keys 10) (Inr (PList [gauge_entry ''09380000'' ''Lees Ferry'']))
          (\<lambda>i. steady_upstream) [0] 0 1 fresh_registry) = Inr () \<and>
   GAUGES_TOTAL (fst (metrics plain_builtins (two_keys 10) (Inr (PList [])) (\<lambda>i. steady_upstream) [] 1 2
     (fst (metrics plain_builtins (two_keys 10) (Inr (PList [gauge_entry ''09380000'' ''Lees Ferry'']))
             (\<lambda>i. steady_upstream) [0] 0 1 fresh_registry)))) = 0 \<and>
   SCRAPE_SUCCESS (fst (metrics plain_builtins (two_keys 10) (Inr (PList [])) (\<lambda>i. steady_upstream) [] 1 2
     (fst (metrics plain_builtins (two_keys 10) (Inr (PList [gauge_entry ''09380000'' ''Lees Ferry'']))
             (\<lambda>i. steady_upstream) [0] 0 1 fresh_registry)))) = 1 \<and>
   SCRAPE_FAILURE (fst (metrics plain_builtins (two_keys 10) (Inr (PList [])) (\<lambda>i. steady_upstream) [] 1 2
     (fst (metrics plain_builtins (two_keys 10) (Inr (PList [gauge_entry ''09380000'' ''Lees Ferry'']))
             (\<lambda>i. steady_upstream) [0] 0 1 fresh_registry)))) = 0"
proof -
  have run:
    "snd (metrics plain_builtins (two_keys 10) (Inr (PList [gauge_entry ''09380000'' ''Lees Ferry'']))
            (\<lambda>i. steady_upstream) [0] 0 1 fresh_registry) = Inr () \<and>
     GAUGES_TOTAL (fst (metrics plain_builtins (two_keys 10) (Inr (PList [])) (\<lambda>i. steady_upstream) [] 1 2
       (fst (metrics plain_builtins (two_keys 10) (Inr (PList [gauge_entry ''09380000'' ''Lees Ferry'']))
               (\<lambda>i. steady_upstream) [0] 0 1 fresh_registry)))) = 0 \<and>
     SCRAPE_SUCCESS (fst (metrics plain_builtins (two_keys 10) (Inr (PList [])) (\<lambda>i. steady_upstream) [] 1 2
       (fst (metrics plain_builtins (two_keys 10) (Inr (PList [gauge_entry ''09380000'' ''Lees Ferry'']))
               (\<lambda>i. steady_upstream) [0] 0 1 fresh_registry)))) = 1 \<and>
     SCRAPE_FAILURE (fst (metrics plain_builtins (two_keys 10) (Inr (PList [])) (\<lambda>i. steady_upstream) [] 1 2
       (fst (metrics plain_builtins (two_keys 10) (Inr (PList [gauge_entry ''09380000'' ''Lees Ferry'']))
               (\<lambda>i. steady_upstream) [0] 0 1 fresh_registry)))) = 0"
  proof -
    let ?gs = "[gauge_entry ''09380000'' ''Lees Ferry'']"
    have ld: "load_gauges_try (Inr (PList ?gs)) = Inr ?gs"
      by (simp add: load_gauges_try_list well_formed_entry_def gauge_entry_def)
    from metrics_returns[OF ld, of "two_keys 10" plain_builtins "\<lambda>i. steady_upstream" "[0]" 0 1
        fresh_registry]
    obtain s' where s': "metrics plain_builtins (two_keys 10) (Inr (PList ?gs))
          (\<lambda>i. steady_upstream) [0] 0 1 fresh_registry = (s', Inr ())"
        "SCRAPE_SUCCESS s' = length (filter (\<lambda>i. i < length ?gs) [0])"
        "SCRAPE_FAILURE s' = 0"
      by (auto simp: two_keys_def)
    have empty: "fst (metrics plain_builtins (two_keys 10) (Inr (PList [])) (\<lambda>i. steady_upstream) [] 1 2 s')
        = s'\<lparr>GAUGES_TOTAL := 0, USGS_STREAMFLOW := Map.empty\<rparr>"
      by (simp add: metrics_def load_gauges_def load_gauges_try_def ThreadPoolExecutor_def)
    show ?thesis
      using s' by (simp add: empty)
  qed
  from completion_order_samples(4) run show ?thesis by (rule conjI)
qed

section \<open>Success and failure counts\<close>

text \<open>
  The test of line 166 holds for every float, so a reading of NaN counts as a success.
\<close>

lemma try_block_timeout:
  "try_block L (\<lambda>req. Failed Timeout) params key_label api_key s =
     (s, Inl (RequestException Timeout))"
  by (simp add: try_block_def)

lemma fetched_timeout: "fetched L cfg (\<lambda>k req. Failed Timeout) gauge_id = NaN"
  by (simp add: fetched_def fetch_usgs_gauge_def try_block_timeout)

text \<open>
  C2. One gauge, both of whose requests time out: the fetch returns NaN, and the scrape
  counts it as a success, since \<^verbatim>\<open>val != float("nan")\<close> holds for every value.
\<close>

theorem failed_gauge_counted_as_success:
  "completion_order 1 1 [0] \<and>
   snd (metrics plain_builtins (two_keys 10) (Inr (PList [gauge_entry ''09380000'' ''Lees Ferry'']))
          (\<lambda>i k req. Failed Timeout) [0] 0 1 fresh_registry) = Inr () \<and>
   USGS_STREAMFLOW (fst (metrics plain_builtins (two_keys 10)
          (Inr (PList [gauge_entry ''09380000'' ''Lees Ferry'']))
          (\<lambda>i k req. Failed Timeout) [0] 0 1 fresh_registry))
     (''09380000'', ''Lees Ferry'', ''Lees Ferry'') = Some NaN \<and>
   SCRAPE_SUCCESS (fst (metrics plain_builtins (two_keys 10)
          (Inr (PList [gauge_entry ''09380000'' ''Lees Ferry'']))
          (\<lambda>i k req. Failed Timeout) [0] 0 1 fresh_registry)) = 1 \<and>
   SCRAPE_FAILURE (fst (metrics plain_builtins (two_keys 10)
          (Inr (PList [gauge_entry ''09380000'' ''Lees Ferry'']))
          (\<lambda>i k req. Failed Timeout) [0] 0 1 fresh_registry)) = 0"
proof -
  have run:
    "snd (metrics plain_builtins (two_keys 10) (Inr (PList [gauge_entry ''09380000'' ''Lees Ferry'']))
            (\<lambda>i k req. Failed Timeout) [0] 0 1 fresh_registry) = Inr () \<and>
     USGS_STREAMFLOW (fst (metrics plain_builtins (two_keys 10)
            (Inr (PList [gauge_entry ''09380000'' ''Lees Ferry'']))
            (\<lambda>i k req. Failed Timeout) [0] 0 1 fresh_registry))
       (''09380000'', ''Lees Ferry'', ''Lees Ferry'') = Some NaN \<and>
     SCRAPE_SUCCESS (fst (metrics plain_builtins (two_keys 10)
            (Inr (PList [gauge_entry ''09380000'' ''Lees Ferry'']))
            (\<lambda>i k req. Failed Timeout) [0] 0 1 fresh_registry)) = 1 \<and>
     SCRAPE_FAILURE (fst (metrics plain_builtins (two_keys 10)
            (Inr (PList [gauge_entry ''09380000'' ''Lees Ferry'']))
            (\<lambda>i k req. Failed Timeout) [0] 0 1 fresh_registry)) = 0"
  proof -
    let ?gs = "[gauge_entry ''09380000'' ''Lees Ferry'']"
    have ld: "load_gauges_try (Inr (PList ?gs)) = Inr ?gs"
      by (simp add: load_gauges_try_list well_formed_entry_def gauge_entry_def)
    have lab: "labels_of plain_builtins (gauge_entry ''09380000'' ''Lees Ferry'') =
                 (''09380000'', ''Lees Ferry'', ''Lees Ferry'')"
      by (simp add: labels_of_def gauge_entry_def dict_get_def plain_builtins_def)
    from metrics_returns[OF ld, of "two_keys 10" plain_builtins "\<lambda>i k req. Failed Timeout" "[0]" 0 1
        fresh_registry]
    obtain s' where s': "metrics plain_builtins (two_keys 10) (Inr (PList ?gs))
          (\<lambda>i k req. Failed Timeout) [0] 0 1 fresh_registry = (s', Inr ())"
        "SCRAPE_SUCCESS s' = length (filter (\<lambda>i. i < length ?gs) [0])"
        "SCRAPE_FAILURE s' = 0"
        "USGS_STREAMFLOW s' = samples plain_builtins (two_keys 10) (\<lambda>i k req. Failed Timeout) ?gs [0] Map.empty"
      by (auto simp: two_keys_def)
    show ?thesis
      using s' by (simp add: samples_def lab fetched_timeout)
  qed
  from completion_order_samples(4) run show ?thesis by (rule conjI)
qed

section \<open>The samples of a scrape\<close>

text \<open>
  The keys of \<^verbatim>\<open>USGS_STREAMFLOW\<close> after a scrape are the label triples of the descriptors.
\<close>

lemma dom_samples:
  "dom (samples L cfg upstream gs order m) =
     dom m \<union> (\<lambda>i. labels_of L (gs ! i)) ` {i \<in> set order. i < length gs}"
proof (induction order arbitrary: m)
  case Nil
  show ?case by (simp add: samples_def)
next
  case (Cons i order)
  have unfold: "samples L cfg upstream gs (i # order) m =
      samples L cfg upstream gs order
        (if i < length gs
         then m(labels_of L (gs ! i) \<mapsto> fetched L cfg (upstream i) (id_of (gs ! i)))
         else m)"
    by (simp add: samples_def)
  show ?case
    unfolding unfold Cons.IH by auto
qed

lemma labels_of_all:
  "set order = {..<length gs} \<Longrightarrow>
   (\<lambda>i. labels_of L (gs ! i)) ` {i \<in> set order. i < length gs} = labels_of L ` set gs"
proof -
  assume s: "set order = {..<length gs}"
  have "{i \<in> set order. i < length gs} = {..<length gs}" using s by auto
  moreover have "(\<lambda>i. labels_of L (gs ! i)) ` {..<length gs} = labels_of L ` set gs"
  proof -
    have "set gs = (\<lambda>i. gs ! i) ` {..<length gs}"
      by (auto simp: in_set_conv_nth)
    then show ?thesis by (simp add: image_image)
  qed
  ultimately show ?thesis by simp
qed

text \<open>
  C5, as stated, fails: two descriptors with one id and two names give two samples with
  that gauge id, since a sample is keyed by all three label values.
\<close>

theorem two_samples_for_one_gauge_id:
  "completion_order 2 2 [0, 1] \<and>
   snd (metrics plain_builtins (two_keys 10) (Inr (PList same_id_two_names))
          (\<lambda>i. steady_upstream) [0, 1] 0 1 fresh_registry) = Inr () \<and>
   USGS_STREAMFLOW (fst (metrics plain_builtins (two_keys 10) (Inr (PList same_id_two_names))
          (\<lambda>i. steady_upstream) [0, 1] 0 1 fresh_registry))
     (''09380000'', ''Lees Ferry'', ''Lees Ferry'') = Some (Finite (85 / 2)) \<and>
   USGS_STREAMFLOW (fst (metrics plain_builtins (two_keys 10) (Inr (PList same_id_two_names))
          (\<lambda>i. steady_upstream) [0, 1] 0 1 fresh_registry))
     (''09380000'', ''Colorado River'', ''Colorado River'') = Some (Finite (85 / 2))"
proof -
  have run:
    "snd (metrics plain_builtins (two_keys 10) (Inr (PList same_id_two_names))
            (\<lambda>i. steady_upstream) [0, 1] 0 1 fresh_registry) = Inr () \<and>
     USGS_STREAMFLOW (fst (metrics plain_builtins (two_keys 10) (Inr (PList same_id_two_names))
            (\<lambda>i. steady_upstream) [0, 1] 0 1 fresh_registry))
       (''09380000'', ''Lees Ferry'', ''Lees Ferry'') = Some (Finite (85 / 2)) \<and>
     USGS_STREAMFLOW (fst (metrics plain_builtins (two_keys 10) (Inr (PList same_id_two_names))
            (\<lambda>i. steady_upstream) [0, 1] 0 1 fresh_registry))
       (''09380000'', ''Colorado River'', ''Colorado River'') = Some (Finite (85 / 2))"
  proof -
    have ld: "load_gauges_try (Inr (PList same_id_two_names)) = Inr same_id_two_names"
      by (simp add: load_gauges_try_list well_formed_entry_def gauge_entry_def same_id_two_names_def)
    have lab: "labels_of plain_builtins (gauge_entry a b) = (a, b, b)" for a b
      by (simp add: labels_of_def gauge_entry_def dict_get_def plain_builtins_def)
    from metrics_returns[OF ld, of "two_keys 10" plain_builtins "\<lambda>i. steady_upstream" "[0, 1]" 0 1
        fresh_registry]
    obtain s' where s': "metrics plain_builtins (two_keys 10) (Inr (PList same_id_two_names))
          (\<lambda>i. steady_upstream) [0, 1] 0 1 fresh_registry = (s', Inr ())"
        "USGS_STREAMFLOW s' = samples plain_builtins (two_keys 10) (\<lambda>i. steady_upstream)
           same_id_two_names [0, 1] Map.empty"
      by (auto simp: two_keys_def same_id_two_names_def)
    show ?thesis
      using s' by (simp add: samples_def same_id_two_names_def lab fetched_steady)
  qed
  from completion_order_samples(2) run show ?thesis by (rule conjI)
qed

text \<open>
  C5, amended. For a non-empty list of well-formed entries, a positive \<^verbatim>\<open>MAX_WORKERS\<close> and
  any completion order the pool allows, the scrape returns, the samples of
  \<^verbatim>\<open>USGS_STREAMFLOW\<close> are exactly the label triples (gauge id, friendly name, location name)
  of the descriptors, one sample for each distinct triple, each holding a float (a number
  or NaN), and \<^verbatim>\<open>GAUGES_TOTAL\<close> is the length of the list.
\<close>

theorem snapshot_samples_are_label_triples:
  assumes "list_all well_formed_entry gs" and "gs \<noteq> []" and "0 < MAX_WORKERS cfg"
    and "completion_order (nat (min (MAX_WORKERS cfg) (int (length gs)))) (length gs) order"
  shows "snd (metrics L cfg (Inr (PList gs)) upstream order t_start t_end s) = Inr () \<and>
         dom (USGS_STREAMFLOW (fst (metrics L cfg (Inr (PList gs)) upstream order t_start t_end s)))
           = labels_of L ` set gs \<and>
         GAUGES_TOTAL (fst (metrics L cfg (Inr (PList gs)) upstream order t_start t_end s))
           = length gs"
proof -
  have ld: "load_gauges_try (Inr (PList gs)) = Inr gs"
    using assms(1) by (simp add: load_gauges_try_list list_ex_iff list_all_iff)
  have perm: "set order = {..<length gs}"
    using assms(4) by (simp add: completion_order_def)
  from metrics_returns[OF ld assms(2) assms(3), of L upstream order t_start t_end s]
  obtain s' where s': "metrics L cfg (Inr (PList gs)) upstream order t_start t_end s = (s', Inr ())"
      "GAUGES_TOTAL s' = length gs"
      "USGS_STREAMFLOW s' = samples L cfg upstream gs order Map.empty"
    by blast
  show ?thesis
    using s' by (simp add: dom_samples labels_of_all[OF perm])
qed

theorem snapshot_samples_are_label_triples_witness:
  "list_all well_formed_entry same_id_two_names \<and> same_id_two_names \<noteq> [] \<and>
   0 < MAX_WORKERS (two_keys 10) \<and>
   completion_order (nat (min (MAX_WORKERS (two_keys 10)) (int (length same_id_two_names))))
     (length same_id_two_names) [1, 0] \<and>
   snd (metrics plain_builtins (two_keys 10) (Inr (PList same_id_two_names))
          (\<lambda>i. steady_upstream) [1, 0] 0 1 fresh_registry) = Inr () \<and>
   dom (USGS_STREAMFLOW (fst (metrics plain_builtins (two_keys 10) (Inr (PList same_id_two_names))
          (\<lambda>i. steady_upstream) [1, 0] 0 1 fresh_registry))) =
     {(''09380000'', ''Lees Ferry'', ''Lees Ferry''),
      (''09380000'', ''Colorado River'', ''Colorado River'')} \<and>
   GAUGES_TOTAL (fst (metrics plain_builtins (two_keys 10) (Inr (PList same_id_two_names))
          (\<lambda>i. steady_upstream) [1, 0] 0 1 fresh_registry)) = 2"
proof -
  have a: "list_all well_formed_entry same_id_two_names"
    by (simp add: well_formed_entry_def gauge_entry_def same_id_two_names_def)
  have b: "same_id_two_names \<noteq> []" by (simp add: same_id_two_names_def)
  have c: "0 < MAX_WORKERS (two_keys 10)" by (simp add: two_keys_def)
  have f: "length same_id_two_names = 2" by (simp add: same_id_two_names_def)
  have d: "completion_order (nat (min (MAX_WORKERS (two_keys 10)) (int (length same_id_two_names))))
     (length same_id_two_names) [1, 0]"
    using completion_order_samples(3) by (simp add: two_keys_def f)
  have lab: "labels_of plain_builtins (gauge_entry a b) = (a, b, b)" for a b
    by (simp add: labels_of_def gauge_entry_def dict_get_def plain_builtins_def)
  have e: "labels_of plain_builtins ` set same_id_two_names =
     {(''09380000'', ''Lees Ferry'', ''Lees Ferry''),
      (''09380000'', ''Colorado River'', ''Colorado River'')}"
    by (simp add: same_id_two_names_def lab)
  from snapshot_samples_are_label_triples[OF a b c d, of plain_builtins "\<lambda>i. steady_upstream" 0 1
      fresh_registry] a b c d e f
  show ?thesis by simp
qed

section \<open>Completion order\<close>

text \<open>
  The main thread writes the samples and the counters, so they do not depend on the order
  in which the futures complete; the workers write the rate-limit gauges, which do.
\<close>

lemma fst_labels_of:
  "well_formed_entry g \<Longrightarrow> fst (labels_of L g) = str_of L (id_of g)"
  by (erule well_formed_entryE) (simp add: labels_of_def id_of_def Let_def)

lemma fold_updates_by_key:
  assumes cons: "\<And>i j. i \<in> A \<Longrightarrow> j \<in> A \<Longrightarrow> key i = key j \<Longrightarrow> val i = val j"
    and sub: "set order \<subseteq> A"
  shows "fold (\<lambda>i m. m(key i \<mapsto> val i)) order m k =
           (if k \<in> key ` set order then Some (val (SOME i. i \<in> A \<and> key i = k)) else m k)"
  using sub
proof (induction order arbitrary: m)
  case Nil
  show ?case by simp
next
  case (Cons i order)
  from Cons.prems have iA: "i \<in> A" and sub': "set order \<subseteq> A" by simp_all
  have vi: "val (SOME j. j \<in> A \<and> key j = key i) = val i"
  proof -
    have "(SOME j. j \<in> A \<and> key j = key i) \<in> A \<and> key (SOME j. j \<in> A \<and> key j = key i) = key i"
      by (rule someI[of "\<lambda>j. j \<in> A \<and> key j = key i" i]) (simp add: iA)
    then show ?thesis using cons iA by blast
  qed
  have "fold (\<lambda>i m. m(key i \<mapsto> val i)) (i # order) m k =
        fold (\<lambda>i m. m(key i \<mapsto> val i)) order (m(key i \<mapsto> val i)) k"
    by simp
  also have "\<dots> = (if k \<in> key ` set order then Some (val (SOME i. i \<in> A \<and> key i = k))
                   else (m(key i \<mapsto> val i)) k)"
    by (rule Cons.IH[OF sub'])
  also have "\<dots> = (if k \<in> key ` set (i # order) then Some (val (SOME i. i \<in> A \<and> key i = k))
                   else m k)"
  proof (cases "k = key i")
    case True
    then show ?thesis using vi by simp
  next
    case False
    then show ?thesis by simp
  qed
  finally show ?case .
qed

lemma samples_order_independent:
  assumes wf: "list_all well_formed_entry gs"
    and o1: "set order1 = {..<length gs}" and o2: "set order2 = {..<length gs}"
  shows "samples L cfg (\<lambda>i. net) gs order1 m = samples L cfg (\<lambda>i. net) gs order2 m"
proof -
  define key where "key = (\<lambda>i. labels_of L (gs ! i))"
  define val where "val = (\<lambda>i. fetched L cfg net (id_of (gs ! i)))"
  have cons: "val i = val j" if "i \<in> {..<length gs}" "j \<in> {..<length gs}" "key i = key j" for i j
  proof -
    from that wf have "well_formed_entry (gs ! i)" "well_formed_entry (gs ! j)"
      by (simp_all add: list_all_length)
    then have "str_of L (id_of (gs ! i)) = fst (key i)" "str_of L (id_of (gs ! j)) = fst (key j)"
      by (simp_all add: key_def fst_labels_of)
    with that(3) have "str_of L (id_of (gs ! i)) = str_of L (id_of (gs ! j))" by simp
    then show ?thesis unfolding val_def by (rule fetched_str_of)
  qed
  have eq: "samples L cfg (\<lambda>i. net) gs order m = fold (\<lambda>i m. m(key i \<mapsto> val i)) order m"
    if "set order = {..<length gs}" for order
    unfolding samples_def
  proof (rule fold_cong)
    fix x assume "x \<in> set order"
    with that have "x < length gs" by simp
    then show "(\<lambda>m. if x < length gs
                   then m(labels_of L (gs ! x) \<mapsto> fetched L cfg net (id_of (gs ! x)))
                   else m) = (\<lambda>m. m(key x \<mapsto> val x))"
      by (simp add: key_def val_def)
  qed (rule refl)+
  have pt: "fold (\<lambda>i m. m(key i \<mapsto> val i)) order m k =
             (if k \<in> key ` {..<length gs}
              then Some (val (SOME i. i \<in> {..<length gs} \<and> key i = k)) else m k)"
    if "set order = {..<length gs}" for order k
  proof -
    have "set order \<subseteq> {..<length gs}" using that by (rule equalityD1)
    from fold_updates_by_key[of "{..<length gs}" key val order m k, OF cons this]
    show ?thesis by (simp only: that)
  qed
  have "fold (\<lambda>i m. m(key i \<mapsto> val i)) order1 m = fold (\<lambda>i m. m(key i \<mapsto> val i)) order2 m"
  proof (rule ext)
    fix k
    show "fold (\<lambda>i m. m(key i \<mapsto> val i)) order1 m k = fold (\<lambda>i m. m(key i \<mapsto> val i)) order2 m k"
      by (simp only: pt[OF o1] pt[OF o2])
  qed
  then show ?thesis by (simp only: eq[OF o1] eq[OF o2])
qed

lemma samples_keys:
  assumes "API_KEY_PRIMARY cfg = API_KEY_PRIMARY cfg'" and "API_KEY_BACKUP cfg = API_KEY_BACKUP cfg'"
  shows "samples L cfg upstream gs order m = samples L cfg' upstream gs order m"
proof -
  have eq: "fetched L cfg = fetched L cfg'"
    by (intro ext) (rule fetched_keys[OF assms])
  show ?thesis unfolding samples_def eq by (rule refl)
qed

lemma try_block_metered:
  "try_block plain_builtins (metered_upstream k) (request_params plain_builtins (PStr ''09380000''))
     key_label api_key s =
     (s\<lparr>USGS_API_RATELIMIT_REMAINING := (USGS_API_RATELIMIT_REMAINING s)(key_label \<mapsto> Finite 450),
        USGS_API_RATELIMIT_LIMIT := (USGS_API_RATELIMIT_LIMIT s)(key_label \<mapsto> Finite 500),
        USGS_API_REQUESTS_PER_HOUR := (USGS_API_REQUESTS_PER_HOUR s)(key_label \<mapsto> Finite 50)\<rparr>,
      Inr (Finite (85 / 2)))"
  "try_block plain_builtins (metered_upstream k) (request_params plain_builtins (PStr ''09379500''))
     key_label api_key s =
     (s\<lparr>USGS_API_RATELIMIT_REMAINING := (USGS_API_RATELIMIT_REMAINING s)(key_label \<mapsto> Finite 449),
        USGS_API_RATELIMIT_LIMIT := (USGS_API_RATELIMIT_LIMIT s)(key_label \<mapsto> Finite 500),
        USGS_API_REQUESTS_PER_HOUR := (USGS_API_REQUESTS_PER_HOUR s)(key_label \<mapsto> Finite 51)\<rparr>,
      Inr (Finite 17))"
proof -
  let ?r = "\<lambda>rem x. \<lparr>status_code = 200,
       headers = [''X-RateLimit-Remaining'' \<mapsto> rem, ''X-RateLimit-Limit'' \<mapsto> ''500''],
       json_body = Some (feature_body (PFloat x))\<rparr>"
  have rl1: "rate_limit_metrics (?r ''450'' x) key_label s =
     (s\<lparr>USGS_API_RATELIMIT_REMAINING := (USGS_API_RATELIMIT_REMAINING s)(key_label \<mapsto> Finite 450),
        USGS_API_RATELIMIT_LIMIT := (USGS_API_RATELIMIT_LIMIT s)(key_label \<mapsto> Finite 500),
        USGS_API_REQUESTS_PER_HOUR := (USGS_API_REQUESTS_PER_HOUR s)(key_label \<mapsto> Finite 50)\<rparr>, Inr ())" for x
    using rate_limit_metrics_parsed[of "?r ''450'' x" "''450''" 450 "''500''" 500 key_label s]
    by (simp add: py_int_samples)
  have rl2: "rate_limit_metrics (?r ''449'' x) key_label s =
     (s\<lparr>USGS_API_RATELIMIT_REMAINING := (USGS_API_RATELIMIT_REMAINING s)(key_label \<mapsto> Finite 449),
        USGS_API_RATELIMIT_LIMIT := (USGS_API_RATELIMIT_LIMIT s)(key_label \<mapsto> Finite 500),
        USGS_API_REQUESTS_PER_HOUR := (USGS_API_REQUESTS_PER_HOUR s)(key_label \<mapsto> Finite 51)\<rparr>, Inr ())" for x
    using rate_limit_metrics_parsed[of "?r ''449'' x" "''449''" 449 "''500''" 500 key_label s]
    by (simp add: py_int_samples)
  have rv: "read_value plain_builtins (Some (feature_body (PFloat x))) = Inr x" for x
    by (simp add: read_value_def feature_body_def dict_get_def)
  show "try_block plain_builtins (metered_upstream k) (request_params plain_builtins (PStr ''09380000''))
     key_label api_key s =
     (s\<lparr>USGS_API_RATELIMIT_REMAINING := (USGS_API_RATELIMIT_REMAINING s)(key_label \<mapsto> Finite 450),
        USGS_API_RATELIMIT_LIMIT := (USGS_API_RATELIMIT_LIMIT s)(key_label \<mapsto> Finite 500),
        USGS_API_REQUESTS_PER_HOUR := (USGS_API_REQUESTS_PER_HOUR s)(key_label \<mapsto> Finite 50)\<rparr>,
      Inr (Finite (85 / 2)))"
    using rl1 rv
    by (simp add: try_block_def metered_upstream_def reply_def request_params_def plain_builtins_def)
  show "try_block plain_builtins (metered_upstream k) (request_params plain_builtins (PStr ''09379500''))
     key_label api_key s =
     (s\<lparr>USGS_API_RATELIMIT_REMAINING := (USGS_API_RATELIMIT_REMAINING s)(key_label \<mapsto> Finite 449),
        USGS_API_RATELIMIT_LIMIT := (USGS_API_RATELIMIT_LIMIT s)(key_label \<mapsto> Finite 500),
        USGS_API_REQUESTS_PER_HOUR := (USGS_API_REQUESTS_PER_HOUR s)(key_label \<mapsto> Finite 51)\<rparr>,
      Inr (Finite 17))"
    using rl2 rv
    by (simp add: try_block_def metered_upstream_def reply_def request_params_def plain_builtins_def)
qed

lemma fetch_metered:
  "fetch_usgs_gauge plain_builtins cfg metered_upstream (PStr ''09380000'') s =
     (s\<lparr>USGS_API_RATELIMIT_REMAINING := (USGS_API_RATELIMIT_REMAINING s)(''primary'' \<mapsto> Finite 450),
        USGS_API_RATELIMIT_LIMIT := (USGS_API_RATELIMIT_LIMIT s)(''primary'' \<mapsto> Finite 500),
        USGS_API_REQUESTS_PER_HOUR := (USGS_API_REQUESTS_PER_HOUR s)(''primary'' \<mapsto> Finite 50)\<rparr>,
      Inr (Finite (85 / 2)))"
  "fetch_usgs_gauge plain_builtins cfg metered_upstream (PStr ''09379500'') s =
     (s\<lparr>USGS_API_RATELIMIT_REMAINING := (USGS_API_RATELIMIT_REMAINING s)(''primary'' \<mapsto> Finite 449),
        USGS_API_RATELIMIT_LIMIT := (USGS_API_RATELIMIT_LIMIT s)(''primary'' \<mapsto> Finite 500),
        USGS_API_REQUESTS_PER_HOUR := (USGS_API_REQUESTS_PER_HOUR s)(''primary'' \<mapsto> Finite 51)\<rparr>,
      Inr (Finite 17))"
  by (simp_all add: fetch_usgs_gauge_def try_block_metered)

lemma two_gauges_facts:
  "load_gauges_try (Inr (PList two_gauges)) = Inr two_gauges"
  "list_all well_formed_entry two_gauges"
  "well_formed_entry (gauge_entry a b)"
  "id_of (gauge_entry a b) = PStr a"
  by (simp_all add: load_gauges_try_list well_formed_entry_def gauge_entry_def two_gauges_def
      id_of_def dict_get_def)

lemma remaining_after_loop:
  "USGS_API_RATELIMIT_REMAINING
     (fst (as_completed_loop plain_builtins cfg (\<lambda>i. metered_upstream)
             (map (\<lambda>g. (id_of g, g)) two_gauges) [0, Suc 0] (s, 0, 0))) ''primary'' = Some (Finite 449)"
  "USGS_API_RATELIMIT_REMAINING
     (fst (as_completed_loop plain_builtins cfg (\<lambda>i. metered_upstream)
             (map (\<lambda>g. (id_of g, g)) two_gauges) [Suc 0, 0] (s, 0, 0))) ''primary'' = Some (Finite 450)"
proof -
  have pf: "process_future plain_builtins cfg metered_upstream (PStr a, gauge_entry a b) (s, x, y) =
           ((fst (fetch_usgs_gauge plain_builtins cfg metered_upstream (PStr a) s))
              \<lparr>USGS_STREAMFLOW := (USGS_STREAMFLOW s)
                 (labels_of plain_builtins (gauge_entry a b) \<mapsto>
                    fetched plain_builtins cfg metered_upstream (PStr a))\<rparr>,
            Inr (Suc x, y))" for a b s x y
    using process_future_well_formed[OF two_gauges_facts(3), of plain_builtins cfg metered_upstream a b s x y]
    by (simp only: two_gauges_facts(4))
  show "USGS_API_RATELIMIT_REMAINING
     (fst (as_completed_loop plain_builtins cfg (\<lambda>i. metered_upstream)
             (map (\<lambda>g. (id_of g, g)) two_gauges) [0, Suc 0] (s, 0, 0))) ''primary'' = Some (Finite 449)"
    by (simp add: two_gauges_def two_gauges_facts(4) pf fetch_metered)
  show "USGS_API_RATELIMIT_REMAINING
     (fst (as_completed_loop plain_builtins cfg (\<lambda>i. metered_upstream)
             (map (\<lambda>g. (id_of g, g)) two_gauges) [Suc 0, 0] (s, 0, 0))) ''primary'' = Some (Finite 450)"
    by (simp add: two_gauges_def two_gauges_facts(4) pf fetch_metered)
qed

text \<open>
  C9, as stated, fails: over the same two gauges and the same deterministic upstream, a
  pool of one worker completes the futures in list order and leaves 449 in the remaining
  gauge of the primary key, and a pool of 50 workers that completes them in the other order
  leaves 450.
\<close>

theorem rate_limit_gauge_depends_on_completion_order:
  "completion_order (nat (min (MAX_WORKERS (two_keys 1)) (int (length two_gauges))))
     (length two_gauges) [0, 1] \<and>
   completion_order (nat (min (MAX_WORKERS (two_keys 50)) (int (length two_gauges))))
     (length two_gauges) [1, 0] \<and>
   USGS_API_RATELIMIT_REMAINING
     (fst (metrics plain_builtins (two_keys 1) (Inr (PList two_gauges)) (\<lambda>i. metered_upstream)
             [0, 1] 0 1 fresh_registry)) ''primary'' = Some (Finite 449) \<and>
   USGS_API_RATELIMIT_REMAINING
     (fst (metrics plain_builtins (two_keys 50) (Inr (PList two_gauges)) (\<lambda>i. metered_upstream)
             [1, 0] 0 1 fresh_registry)) ''primary'' = Some (Finite 450)"
proof -
  have len: "length two_gauges = 2" by (simp add: two_gauges_def)
  have ne: "two_gauges \<noteq> []" by (simp add: two_gauges_def)
  have a: "completion_order (nat (min (MAX_WORKERS (two_keys 1)) (int (length two_gauges))))
     (length two_gauges) [0, 1]"
    using completion_order_samples(1) by (simp add: two_keys_def len)
  have b: "completion_order (nat (min (MAX_WORKERS (two_keys 50)) (int (length two_gauges))))
     (length two_gauges) [1, 0]"
    using completion_order_samples(3) by (simp add: two_keys_def len)
  have c: "USGS_API_RATELIMIT_REMAINING
     (fst (metrics plain_builtins (two_keys 1) (Inr (PList two_gauges)) (\<lambda>i. metered_upstream)
             [0, 1] 0 1 fresh_registry)) ''primary'' = Some (Finite 449)"
    by (simp add: metrics_state[OF two_gauges_facts(1) ne] two_keys_def remaining_after_loop
          del: as_completed_loop.simps)
  have d: "USGS_API_RATELIMIT_REMAINING
     (fst (metrics plain_builtins (two_keys 50) (Inr (PList two_gauges)) (\<lambda>i. metered_upstream)
             [1, 0] 0 1 fresh_registry)) ''primary'' = Some (Finite 450)"
    by (simp add: metrics_state[OF two_gauges_facts(1) ne] two_keys_def remaining_after_loop
          del: as_completed_loop.simps)
  from a b c d show ?thesis by (intro conjI)
qed

text \<open>
  C9, amended. Two scrapes of the same non-empty gauge list against the same upstream,
  whose answers depend on the request and the key only, return the same samples, the same
  success and failure counts and the same total, whatever the pool sizes (both positive),
  the completion orders the pools allow, the clock readings and the registries the scrapes
  start from. The rate-limit gauges are left out: they hold what the last worker wrote.
\<close>

theorem scrape_independent_of_completion_order:
  assumes "list_all well_formed_entry gs" and "gs \<noteq> []"
    and "0 < MAX_WORKERS cfg1" and "0 < MAX_WORKERS cfg2"
    and "API_KEY_PRIMARY cfg1 = API_KEY_PRIMARY cfg2" and "API_KEY_BACKUP cfg1 = API_KEY_BACKUP cfg2"
    and "completion_order (nat (min (MAX_WORKERS cfg1) (int (length gs)))) (length gs) order1"
    and "completion_order (nat (min (MAX_WORKERS cfg2) (int (length gs)))) (length gs) order2"
  shows "snd (metrics L cfg1 (Inr (PList gs)) (\<lambda>i. net) order1 t1 t1' s1) = Inr () \<and>
         snd (metrics L cfg2 (Inr (PList gs)) (\<lambda>i. net) order2 t2 t2' s2) = Inr () \<and>
         USGS_STREAMFLOW (fst (metrics L cfg1 (Inr (PList gs)) (\<lambda>i. net) order1 t1 t1' s1)) =
           USGS_STREAMFLOW (fst (metrics L cfg2 (Inr (PList gs)) (\<lambda>i. net) order2 t2 t2' s2)) \<and>
         SCRAPE_SUCCESS (fst (metrics L cfg1 (Inr (PList gs)) (\<lambda>i. net) order1 t1 t1' s1)) =
           SCRAPE_SUCCESS (fst (metrics L cfg2 (Inr (PList gs)) (\<lambda>i. net) order2 t2 t2' s2)) \<and>
         SCRAPE_FAILURE (fst (metrics L cfg1 (Inr (PList gs)) (\<lambda>i. net) order1 t1 t1' s1)) =
           SCRAPE_FAILURE (fst (metrics L cfg2 (Inr (PList gs)) (\<lambda>i. net) order2 t2 t2' s2)) \<and>
         GAUGES_TOTAL (fst (metrics L cfg1 (Inr (PList gs)) (\<lambda>i. net) order1 t1 t1' s1)) =
           GAUGES_TOTAL (fst (metrics L cfg2 (Inr (PList gs)) (\<lambda>i. net) order2 t2 t2' s2))"
proof -
  have ld: "load_gauges_try (Inr (PList gs)) = Inr gs"
    using assms(1) by (simp add: load_gauges_try_list list_ex_iff list_all_iff)
  from assms(7) have d1: "distinct order1" and o1: "set order1 = {..<length gs}"
    by (simp_all add: completion_order_def)
  from assms(8) have d2: "distinct order2" and o2: "set order2 = {..<length gs}"
    by (simp_all add: completion_order_def)
  from metrics_returns[OF ld assms(2) assms(3), of L "\<lambda>i. net" order1 t1 t1' s1]
  obtain r1 where r1: "metrics L cfg1 (Inr (PList gs)) (\<lambda>i. net) order1 t1 t1' s1 = (r1, Inr ())"
      "SCRAPE_SUCCESS r1 = length (filter (\<lambda>i. i < length gs) order1)"
      "SCRAPE_FAILURE r1 = 0" "GAUGES_TOTAL r1 = length gs"
      "USGS_STREAMFLOW r1 = samples L cfg1 (\<lambda>i. net) gs order1 Map.empty"
    by blast
  from metrics_returns[OF ld assms(2) assms(4), of L "\<lambda>i. net" order2 t2 t2' s2]
  obtain r2 where r2: "metrics L cfg2 (Inr (PList gs)) (\<lambda>i. net) order2 t2 t2' s2 = (r2, Inr ())"
      "SCRAPE_SUCCESS r2 = length (filter (\<lambda>i. i < length gs) order2)"
      "SCRAPE_FAILURE r2 = 0" "GAUGES_TOTAL r2 = length gs"
      "USGS_STREAMFLOW r2 = samples L cfg2 (\<lambda>i. net) gs order2 Map.empty"
    by blast
  have succ: "SCRAPE_SUCCESS r1 = SCRAPE_SUCCESS r2"
    by (simp only: r1(2) r2(2) permutation_in_range[OF d1 o1] permutation_in_range[OF d2 o2])
  have "samples L cfg1 (\<lambda>i. net) gs order1 Map.empty = samples L cfg2 (\<lambda>i. net) gs order1 Map.empty"
    by (rule samples_keys[OF assms(5) assms(6)])
  also have "\<dots> = samples L cfg2 (\<lambda>i. net) gs order2 Map.empty"
    by (rule samples_order_independent[OF assms(1) o1 o2])
  finally have flow: "USGS_STREAMFLOW r1 = USGS_STREAMFLOW r2"
    by (simp only: r1(5) r2(5))
  show ?thesis
    using r1(1,3,4) r2(1,3,4) succ flow by simp
qed

theorem scrape_independent_of_completion_order_witness:
  "list_all well_formed_entry two_gauges \<and> two_gauges \<noteq> [] \<and>
   0 < MAX_WORKERS (two_keys 1) \<and> 0 < MAX_WORKERS (two_keys 50) \<and>
   API_KEY_PRIMARY (two_keys 1) = API_KEY_PRIMARY (two_keys 50) \<and>
   API_KEY_BACKUP (two_keys 1) = API_KEY_BACKUP (two_keys 50) \<and>
   completion_order (nat (min (MAX_WORKERS (two_keys 1)) (int (length two_gauges))))
     (length two_gauges) [0, 1] \<and>
   completion_order (nat (min (MAX_WORKERS (two_keys 50)) (int (length two_gauges))))
     (length two_gauges) [1, 0] \<and>
   snd (metrics plain_builtins (two_keys 1) (Inr (PList two_gauges)) (\<lambda>i. metered_upstream)
          [0, 1] 0 1 fresh_registry) = Inr () \<and>
   snd (metrics plain_builtins (two_keys 50) (Inr (PList two_gauges)) (\<lambda>i. metered_upstream)
          [1, 0] 5 7 fresh_registry) = Inr () \<and>
   USGS_STREAMFLOW (fst (metrics plain_builtins (two_keys 1) (Inr (PList two_gauges))
          (\<lambda>i. metered_upstream) [0, 1] 0 1 fresh_registry)) =
     USGS_STREAMFLOW (fst (metrics plain_builtins (two_keys 50) (Inr (PList two_gauges))
          (\<lambda>i. metered_upstream) [1, 0] 5 7 fresh_registry)) \<and>
   SCRAPE_SUCCESS (fst (metrics plain_builtins (two_keys 1) (Inr (PList two_gauges))
          (\<lambda>i. metered_upstream) [0, 1] 0 1 fresh_registry)) =
     SCRAPE_SUCCESS (fst (metrics plain_builtins (two_keys 50) (Inr (PList two_gauges))
          (\<lambda>i. metered_upstream) [1, 0] 5 7 fresh_registry)) \<and>
   SCRAPE_FAILURE (fst (metrics plain_builtins (two_keys 1) (Inr (PList two_gauges))
          (\<lambda>i. metered_upstream) [0, 1] 0 1 fresh_registry)) =
     SCRAPE_FAILURE (fst (metrics plain_builtins (two_keys 50) (Inr (PList two_gauges))
          (\<lambda>i. metered_upstream) [1, 0] 5 7 fresh_registry)) \<and>
   GAUGES_TOTAL (fst (metrics plain_builtins (two_keys 1) (Inr (PList two_gauges))
          (\<lambda>i. metered_upstream) [0, 1] 0 1 fresh_registry)) =
     GAUGES_TOTAL (fst (metrics plain_builtins (two_keys 50) (Inr (PList two_gauges))
          (\<lambda>i. metered_upstream) [1, 0] 5 7 fresh_registry))"
proof -
  have len: "length two_gauges = 2" by (simp add: two_gauges_def)
  have h1: "list_all well_formed_entry two_gauges" by (rule two_gauges_facts(2))
  have h2: "two_gauges \<noteq> []" by (simp add: two_gauges_def)
  have h3: "0 < MAX_WORKERS (two_keys 1)" by (simp add: two_keys_def)
  have h4: "0 < MAX_WORKERS (two_keys 50)" by (simp add: two_keys_def)
  have h5: "API_KEY_PRIMARY (two_keys 1) = API_KEY_PRIMARY (two_keys 50)" by (simp add: two_keys_def)
  have h6: "API_KEY_BACKUP (two_keys 1) = API_KEY_BACKUP (two_keys 50)" by (simp add: two_keys_def)
  have h7: "completion_order (nat (min (MAX_WORKERS (two_keys 1)) (int (length two_gauges))))
     (length two_gauges) [0, 1]"
    using completion_order_samples(1) by (simp add: two_keys_def len)
  have h8: "completion_order (nat (min (MAX_WORKERS (two_keys 50)) (int (length two_gauges))))
     (length two_gauges) [1, 0]"
    using completion_order_samples(3) by (simp add: two_keys_def len)
  note concl = scrape_independent_of_completion_order[OF h1 h2 h3 h4 h5 h6 h7 h8,
      of plain_builtins metered_upstream 0 1 fresh_registry 5 7 fresh_registry]
  from h1 h2 h3 h4 h5 h6 h7 h8 concl show ?thesis by blast
qed

end
